theory Spec2Isabelle
  imports Complex_Main
begin

section \<open>Training pipeline \<^verbatim>\<open>pipelines/mv4-conv-large-imagenet-1k.py\<close>\<close>

text \<open>
  A shallow embedding of the training script: the streaming loss and top-k accumulator
  (\<^verbatim>\<open>validate\<close> and the inner loop of \<^verbatim>\<open>main\<close>), the mixed-precision optimisation
  step, the epoch loop with its evaluation cadence, and the final best-value summary.

  Python floats and tensor entries are modelled as exact reals: rounding, overflow to
  infinity and NaN of IEEE arithmetic are not represented, with one exception: a gradient
  entry is either a finite real or non-finite (\<open>grad\<close> below), since the loss scaler
  branches on exactly that. Python integers are \<open>int\<close>; sizes and class indices are \<open>nat\<close>.
  Exceptions are values \<open>Inl e\<close> of a sum type; an exception aborts the whole run.
\<close>

subsection \<open>Errors and tensors\<close>

datatype error = ZeroDivisionError | RuntimeError | ValueError

text \<open>
  A batch of model outputs is a list of score rows, one per sample (shape \<open>N \<times> C\<close>);
  a batch of labels is a list of class indices (shape \<open>N\<close>).
\<close>

type_synonym outputs = "real list list"
type_synonym labels = "nat list"

subsection \<open>Top-k predictions and hit counts (lines 117--124 and 190--194)\<close>

text \<open>
  \<^verbatim>\<open>outputs.topk(5, 1, True, True)\<close>: for each row the indices of the \<open>k\<close> largest scores,
  largest first. The library raises when a row has fewer than \<open>k\<close> entries. The order among
  equal scores is left open by the library; the model takes the lower index first
  (\<open>sort_key\<close> is stable).
\<close>

definition topk_row :: "nat \<Rightarrow> real list \<Rightarrow> nat list" where
  "topk_row k row = take k (map snd (sort_key (\<lambda>p. - fst p) (zip row [0..<length row])))"

definition topk :: "nat \<Rightarrow> outputs \<Rightarrow> error + nat list list" where
  "topk k out =
     (if list_all (\<lambda>row. k \<le> length row) out then Inr (map (topk_row k) out)
      else Inl RuntimeError)"

text \<open>\<^verbatim>\<open>pred.t()\<close> for an \<open>N \<times> k\<close> index matrix: row \<open>r\<close> holds the rank-\<open>r\<close> prediction of every sample.\<close>

definition t :: "nat \<Rightarrow> nat list list \<Rightarrow> nat list list" where
  "t k pred = map (\<lambda>r. map (\<lambda>row. row ! r) pred) [0..<k]"

text \<open>\<^verbatim>\<open>pred.eq(labels.view(1, -1).expand_as(pred))\<close>: every rank row compared with the labels.\<close>

definition eq_labels :: "nat list list \<Rightarrow> labels \<Rightarrow> bool list list" where
  "eq_labels pred lbls = map (\<lambda>prow. map2 (\<lambda>c l. c = l) prow lbls) pred"

text \<open>\<^verbatim>\<open>correct[:n].float().sum()\<close>: the number of true entries in the first \<open>n\<close> rows.\<close>

definition float_sum :: "bool list list \<Rightarrow> real" where
  "float_sum rows = real (sum_list (map (\<lambda>row. length (filter (\<lambda>b. b) row)) rows))"

text \<open>
  The block shared by \<^verbatim>\<open>validate\<close> and the training loop: the pair
  \<^verbatim>\<open>(correct[:1].float().sum(), correct[:5].float().sum())\<close>.
\<close>

definition correct_counts :: "outputs \<Rightarrow> labels \<Rightarrow> error + real \<times> real" where
  "correct_counts out lbls =
     (case topk 5 out of
        Inl e \<Rightarrow> Inl e
      | Inr pred \<Rightarrow>
          let correct = eq_labels (t 5 pred) lbls
          in Inr (float_sum (take 1 correct), float_sum (take 5 correct)))"

subsection \<open>External collaborators\<close>

text \<open>
  The network, the loss criterion, reverse-mode differentiation, gradient clipping and
  the SGD update belong to libraries; they are parameters of the model. \<open>'p\<close> is the state
  the optimiser owns (parameters and momentum buffers), \<open>'img\<close> an input batch.
  \<open>backward\<close> yields the gradients of the scaled loss, given the current scale factor.
\<close>

datatype mode = Train | Eval

datatype grad = Finite real | NonFinite

record ('p, 'img) collaborators =
  forward :: "mode \<Rightarrow> 'p \<Rightarrow> 'img \<Rightarrow> outputs"
  criterion :: "outputs \<Rightarrow> labels \<Rightarrow> real"
  backward :: "'p \<Rightarrow> 'img \<Rightarrow> labels \<Rightarrow> real \<Rightarrow> grad list"
  clip_grad_norm :: "real \<Rightarrow> grad list \<Rightarrow> grad list"
  sgd_step :: "real \<Rightarrow> 'p \<Rightarrow> grad list \<Rightarrow> 'p"

text \<open>
  The criterion (cross entropy) rejects an output batch whose size differs from the
  label batch; that check is written out where the criterion is called.
\<close>

definition apply_criterion ::
  "('p, 'img) collaborators \<Rightarrow> outputs \<Rightarrow> labels \<Rightarrow> error + real" where
  "apply_criterion env out lbls =
     (if length out = length lbls then Inr (criterion env out lbls) else Inl ValueError)"

subsection \<open>\<^verbatim>\<open>validate\<close> (lines 97--129)\<close>

record totals =
  total_loss :: real
  total_samples :: nat
  top1_correct :: real
  top5_correct :: real

definition validate_batch ::
  "('p, 'img) collaborators \<Rightarrow> 'p \<Rightarrow> 'img \<times> labels \<Rightarrow> totals \<Rightarrow> error + totals" where
  "validate_batch env p b acc =
     (let images = fst b; lbls = snd b;
          out = forward env Eval p images
      in case apply_criterion env out lbls of
           Inl e \<Rightarrow> Inl e
         | Inr l \<Rightarrow>
             (let batch_size = length lbls
              in (case correct_counts out lbls of
                    Inl e \<Rightarrow> Inl e
                  | Inr c \<Rightarrow>
                      Inr \<lparr> total_loss = total_loss acc + l * real batch_size,
                            total_samples = total_samples acc + batch_size,
                            top1_correct = top1_correct acc + fst c,
                            top5_correct = top5_correct acc + snd c \<rparr>)))"

fun validate_loop ::
  "('p, 'img) collaborators \<Rightarrow> 'p \<Rightarrow> ('img \<times> labels) list \<Rightarrow> totals \<Rightarrow> error + totals" where
  "validate_loop env p [] acc = Inr acc"
| "validate_loop env p (b # bs) acc =
     (case validate_batch env p b acc of
        Inl e \<Rightarrow> Inl e
      | Inr acc' \<Rightarrow> validate_loop env p bs acc')"

definition validate ::
  "('p, 'img) collaborators \<Rightarrow> 'p \<Rightarrow> ('img \<times> labels) list \<Rightarrow> error + real \<times> real \<times> real" where
  "validate env p dataloader =
     (case validate_loop env p dataloader
             \<lparr> total_loss = 0, total_samples = 0, top1_correct = 0, top5_correct = 0 \<rparr> of
        Inl e \<Rightarrow> Inl e
      | Inr acc \<Rightarrow>
          if total_samples acc = 0 then Inl ZeroDivisionError
          else Inr (total_loss acc / real (total_samples acc),
                    (top1_correct acc / real (total_samples acc)) * 100,
                    (top5_correct acc / real (total_samples acc)) * 100))"

subsection \<open>Learning-rate scheduler (\<^verbatim>\<open>pile.schedulers.WarmupCosineScheduler\<close>)\<close>

text \<open>
  Modelled from the spec: the state of the scheduler (section 3, \<open>LRScheduleState\<close> with its
  step counter); the class itself is not among the sources.
\<close>

record lr_scheduler =
  total_steps :: int
  warmup_steps :: int
  base_lr :: real
  step_counter :: int

text \<open>Modelled from the spec: clamping to \<open>[0, 1]\<close> (section 4.1).\<close>

definition clamp01 :: "real \<Rightarrow> real" where
  "clamp01 x = max 0 (min 1 x)"

text \<open>
  Modelled from the spec: the class \<^verbatim>\<open>WarmupCosineScheduler\<close> of \<^verbatim>\<open>pile/schedulers.py\<close> is
  not among the sources. Section 4.1: if \<open>step < warmup_steps\<close> the rate is
  \<open>base_lr * (step + 1) / warmup_steps\<close>; else
  \<open>progress = (step - warmup_steps) / max(1, total_steps - warmup_steps)\<close>, clamped to
  \<open>[0, 1]\<close>, and the rate is \<open>base_lr * 0.5 * (1 + cos(pi * progress))\<close>.
\<close>

definition warmup_cosine :: "real \<Rightarrow> int \<Rightarrow> int \<Rightarrow> int \<Rightarrow> real" where
  "warmup_cosine rate0 n_total n_warmup step =
     (if step < n_warmup then rate0 * (real_of_int step + 1) / real_of_int n_warmup
      else
        let progress =
              clamp01 (real_of_int (step - n_warmup) / real_of_int (max 1 (n_total - n_warmup)))
        in rate0 * 0.5 * (1 + cos (pi * progress)))"

text \<open>
  Modelled from the spec: \<^verbatim>\<open>scheduler.step()\<close>, the spec's \<open>advance\<close>. It computes the rate
  for the current counter, hands it back to be written into the optimiser, and increments
  the counter.
\<close>

definition WarmupCosineScheduler_step :: "lr_scheduler \<Rightarrow> real \<times> lr_scheduler" where
  "WarmupCosineScheduler_step s =
     (warmup_cosine (base_lr s) (total_steps s) (warmup_steps s) (step_counter s),
      s\<lparr> step_counter := step_counter s + 1 \<rparr>)"

subsection \<open>Loss scaler (\<^verbatim>\<open>torch.amp.GradScaler\<close>)\<close>

text \<open>
  Modelled from the spec: the state of the loss scaler (section 3, \<open>ScaleState\<close>), with the
  length of the run of successful steps after which the scale grows, the count of
  successful steps so far, and the overflow flag that \<^verbatim>\<open>step\<close> hands to \<^verbatim>\<open>update\<close>.
\<close>

record grad_scaler =
  scale_factor :: real
  growth_interval :: nat
  growth_tracker :: nat
  found_inf :: bool

text \<open>Modelled from the spec: finiteness of a gradient entry, and its division by the scale.\<close>

definition is_finite :: "grad \<Rightarrow> bool" where
  "is_finite g = (case g of Finite x \<Rightarrow> True | NonFinite \<Rightarrow> False)"

definition unscale_grad :: "real \<Rightarrow> grad \<Rightarrow> grad" where
  "unscale_grad sf g = (case g of Finite x \<Rightarrow> Finite (x / sf) | NonFinite \<Rightarrow> NonFinite)"

text \<open>
  Modelled from the spec: the loss scaler is library code. Section 4.2: the gradients are
  inspected for non-finite values and divided back by the scale factor
  (\<^verbatim>\<open>scaler.unscale_\<close>, which \<^verbatim>\<open>scaler.step\<close> runs itself unless the caller already did).
\<close>

definition GradScaler_unscale :: "grad_scaler \<Rightarrow> grad list \<Rightarrow> grad_scaler \<times> grad list" where
  "GradScaler_unscale sc gs =
     (sc\<lparr> found_inf := \<not> list_all is_finite gs \<rparr>, map (unscale_grad (scale_factor sc)) gs)"

text \<open>
  Modelled from the spec: \<^verbatim>\<open>scaler.step(optimizer)\<close>. If a non-finite gradient was found the
  optimiser update is skipped entirely; otherwise the update runs on the unscaled gradients.
  \<open>unscaled\<close> says whether \<^verbatim>\<open>unscale_\<close> has already run in this step.
\<close>

definition GradScaler_step ::
  "('p, 'img) collaborators \<Rightarrow> bool \<Rightarrow> real \<Rightarrow> grad_scaler \<times> grad list \<Rightarrow> 'p \<Rightarrow> grad_scaler \<times> 'p" where
  "GradScaler_step env unscaled rate sg p =
     (let sg' = (if unscaled then sg else GradScaler_unscale (fst sg) (snd sg))
      in if found_inf (fst sg') then (fst sg', p)
         else (fst sg', sgd_step env rate p (snd sg')))"

text \<open>
  Modelled from the spec: \<^verbatim>\<open>scaler.update()\<close> commits the adjustment decided during the step:
  the scale factor is halved after a skipped step, and doubled after \<open>growth_interval\<close>
  consecutive successful steps.
\<close>

definition GradScaler_update :: "grad_scaler \<Rightarrow> grad_scaler" where
  "GradScaler_update sc =
     (if found_inf sc
      then sc\<lparr> scale_factor := scale_factor sc * 0.5, growth_tracker := 0, found_inf := False \<rparr>
      else if growth_tracker sc + 1 = growth_interval sc
      then sc\<lparr> scale_factor := scale_factor sc * 2, growth_tracker := 0 \<rparr>
      else sc\<lparr> growth_tracker := growth_tracker sc + 1 \<rparr>)"

subsection \<open>One optimisation step (lines 171--196)\<close>

record 'p session =
  params :: 'p
  lr :: real
  scheduler :: lr_scheduler
  scaler :: grad_scaler
  model_mode :: mode

record running =
  running_loss :: real
  running_top1_correct :: real
  running_top5_correct :: real
  running_samples :: nat

text \<open>
  Lines 180--182: when \<^verbatim>\<open>epoch > WARMUP_STEPS\<close> the gradients are unscaled and clipped to
  global norm \<open>1.0\<close>; otherwise they are passed on as they are. The flag says whether
  \<^verbatim>\<open>unscale_\<close> has run.
\<close>

definition maybe_clip ::
  "('p, 'img) collaborators \<Rightarrow> int \<Rightarrow> int \<Rightarrow> grad_scaler \<Rightarrow> grad list
     \<Rightarrow> bool \<times> grad_scaler \<times> grad list" where
  "maybe_clip env epoch WARMUP_STEPS sc gs =
     (if epoch > WARMUP_STEPS
      then let u = GradScaler_unscale sc gs in (True, fst u, clip_grad_norm env 1.0 (snd u))
      else (False, sc, gs))"

text \<open>Lines 178--184: backward pass on the scaled loss, clipping gate, scaler step and update.\<close>

definition optimizer_phase ::
  "('p, 'img) collaborators \<Rightarrow> int \<Rightarrow> int \<Rightarrow> 'img \<times> labels \<Rightarrow> 'p session \<Rightarrow> 'p session" where
  "optimizer_phase env epoch WARMUP_STEPS b s =
     (let gs = backward env (params s) (fst b) (snd b) (scale_factor (scaler s));
          c = maybe_clip env epoch WARMUP_STEPS (scaler s) gs;
          r = GradScaler_step env (fst c) (lr s) (snd c) (params s)
      in s\<lparr> params := snd r, scaler := GradScaler_update (fst r) \<rparr>)"

text \<open>
  The session after one step: lines 178--184, then \<^verbatim>\<open>scheduler.step()\<close> of line 196, which
  writes the new rate into the optimiser. Nothing in between touches the session.
\<close>

definition next_session ::
  "('p, 'img) collaborators \<Rightarrow> int \<Rightarrow> int \<Rightarrow> 'img \<times> labels \<Rightarrow> 'p session \<Rightarrow> 'p session" where
  "next_session env epoch WARMUP_STEPS b s =
     (let s1 = optimizer_phase env epoch WARMUP_STEPS b s;
          adv = WarmupCosineScheduler_step (scheduler s1)
      in s1\<lparr> lr := fst adv, scheduler := snd adv \<rparr>)"

definition train_step ::
  "('p, 'img) collaborators \<Rightarrow> int \<Rightarrow> int \<Rightarrow> 'img \<times> labels \<Rightarrow> 'p session \<times> running
     \<Rightarrow> error + 'p session \<times> running" where
  "train_step env epoch WARMUP_STEPS b sr =
     (let s = fst sr; acc = snd sr; lbls = snd b;
          out = forward env (model_mode s) (params s) (fst b)
      in case apply_criterion env out lbls of
           Inl e \<Rightarrow> Inl e
         | Inr l \<Rightarrow>
             (case correct_counts out lbls of
                Inl e \<Rightarrow> Inl e
              | Inr c \<Rightarrow>
                  Inr (next_session env epoch WARMUP_STEPS b s,
                       \<lparr> running_loss = running_loss acc + l * real (length lbls),
                         running_top1_correct = running_top1_correct acc + fst c,
                         running_top5_correct = running_top5_correct acc + snd c,
                         running_samples = running_samples acc + length lbls \<rparr>)))"

fun train_loop ::
  "('p, 'img) collaborators \<Rightarrow> int \<Rightarrow> int \<Rightarrow> ('img \<times> labels) list \<Rightarrow> 'p session \<times> running
     \<Rightarrow> error + 'p session \<times> running" where
  "train_loop env epoch WARMUP_STEPS [] sr = Inr sr"
| "train_loop env epoch WARMUP_STEPS (b # bs) sr =
     (case train_step env epoch WARMUP_STEPS b sr of
        Inl e \<Rightarrow> Inl e
      | Inr sr' \<Rightarrow> train_loop env epoch WARMUP_STEPS bs sr')"

text \<open>Lines 164--200: one training pass and its three averages.\<close>

definition train_epoch ::
  "('p, 'img) collaborators \<Rightarrow> int \<Rightarrow> int \<Rightarrow> ('img \<times> labels) list \<Rightarrow> 'p session
     \<Rightarrow> error + 'p session \<times> real \<times> real \<times> real" where
  "train_epoch env epoch WARMUP_STEPS train_loader s =
     (case train_loop env epoch WARMUP_STEPS train_loader
             (s\<lparr> model_mode := Train \<rparr>,
              \<lparr> running_loss = 0, running_top1_correct = 0, running_top5_correct = 0,
                running_samples = 0 \<rparr>) of
        Inl e \<Rightarrow> Inl e
      | Inr sr \<Rightarrow>
          let acc = snd sr
          in if running_samples acc = 0 then Inl ZeroDivisionError
             else Inr (fst sr,
                       running_loss acc / real (running_samples acc),
                       (running_top1_correct acc / real (running_samples acc)) * 100,
                       (running_top5_correct acc / real (running_samples acc)) * 100))"

subsection \<open>Metric histories and the epoch loop (lines 142--238)\<close>

definition BATCH_SIZE :: int where "BATCH_SIZE = 256"
definition NUM_EPOCHS :: int where "NUM_EPOCHS = 36"
definition METRICS_UPDATE_STEP :: int where "METRICS_UPDATE_STEP = 1"

text \<open>Lines 142--143, as functions of \<^verbatim>\<open>len(train_loader)\<close>; \<^verbatim>\<open>//\<close> is floor division.\<close>

definition NUM_STEPS :: "int \<Rightarrow> int" where
  "NUM_STEPS len_train_loader = len_train_loader * NUM_EPOCHS"

definition WARMUP_STEPS :: "int \<Rightarrow> int" where
  "WARMUP_STEPS len_train_loader = NUM_STEPS len_train_loader div 100"

text \<open>The dictionaries \<^verbatim>\<open>train_metrics\<close> and \<^verbatim>\<open>test_metrics\<close>: three lists under fixed keys.\<close>

record metrics =
  top1 :: "real list"
  top5 :: "real list"
  loss :: "real list"

text \<open>What the run writes to the console: the two progress bars and the printed lines.\<close>

record epoch_line =
  Epoch :: int
  LR :: real
  Train_Loss :: real
  Test_Loss :: real
  Train_Top1 :: real
  Train_Top5 :: real
  Test_Top1 :: real
  Test_Top5 :: real

datatype event =
    Progress_Train
  | Progress_Validation
  | Epoch_Line epoch_line
  | Best_Train real
  | Best_Test real

record 'p run =
  session :: "'p session"
  train_metrics :: metrics
  test_metrics :: metrics
  console :: "event list"

text \<open>The three \<^verbatim>\<open>append\<close> calls on one dictionary, for a triple (loss, top1, top5).\<close>

definition append_metrics :: "metrics \<Rightarrow> real \<times> real \<times> real \<Rightarrow> metrics" where
  "append_metrics m r =
     m\<lparr> loss := loss m @ [fst r], top1 := top1 m @ [fst (snd r)], top5 := top5 m @ [snd (snd r)] \<rparr>"

text \<open>\<^verbatim>\<open>xs[-1] if len(xs) > 0 else 0.0\<close> (lines 216--218).\<close>

definition last_or_zero :: "real list \<Rightarrow> real" where
  "last_or_zero xs = (if length xs > 0 then last xs else 0)"

definition make_line :: "int \<Rightarrow> real \<Rightarrow> real \<times> real \<times> real \<Rightarrow> real \<times> real \<times> real \<Rightarrow> epoch_line" where
  "make_line epoch current_lr tr te =
     \<lparr> Epoch = epoch + 1, LR = current_lr,
       Train_Loss = fst tr, Test_Loss = fst te,
       Train_Top1 = fst (snd tr), Train_Top5 = snd (snd tr),
       Test_Top1 = fst (snd te), Test_Top5 = snd (snd te) \<rparr>"

text \<open>
  Lines 202--232, with the evaluation interval as a parameter (the script fixes it to
  \<open>METRICS_UPDATE_STEP\<close>). \<open>tr\<close> is the triple of training averages of this epoch. Python's
  \<^verbatim>\<open>%\<close> raises on a zero divisor and otherwise agrees with \<open>mod\<close> on \<open>int\<close>. \<^verbatim>\<open>validate\<close>
  switches the model to evaluation mode and shows its progress bar.
\<close>

definition record_metrics ::
  "('p, 'img) collaborators \<Rightarrow> int \<Rightarrow> ('img \<times> labels) list \<Rightarrow> int \<Rightarrow> real
     \<Rightarrow> real \<times> real \<times> real \<Rightarrow> 'p run \<Rightarrow> error + 'p run" where
  "record_metrics env update_step test_loader epoch current_lr tr st =
     (if update_step = 0 then Inl ZeroDivisionError
      else if epoch mod update_step = 0 then
        (case validate env (params (session st)) test_loader of
           Inl e \<Rightarrow> Inl e
         | Inr te \<Rightarrow>
             Inr (st\<lparr> session := (session st)\<lparr> model_mode := Eval \<rparr>,
                      train_metrics := append_metrics (train_metrics st) tr,
                      test_metrics := append_metrics (test_metrics st) te,
                      console := console st @
                        [Progress_Validation, Epoch_Line (make_line epoch current_lr tr te)] \<rparr>))
      else
        (let te = (last_or_zero (loss (test_metrics st)),
                   last_or_zero (top1 (test_metrics st)),
                   last_or_zero (top5 (test_metrics st)))
         in Inr (st\<lparr> train_metrics := append_metrics (train_metrics st) tr,
                     console := console st @ [Epoch_Line (make_line epoch current_lr tr te)] \<rparr>)))"

text \<open>
  Lines 163--232: the body of the epoch loop. The loaders are restartable; each is one
  fixed list of batches, the same in every epoch (shuffling and augmentation are left out).
\<close>

definition epoch_body ::
  "('p, 'img) collaborators \<Rightarrow> int \<Rightarrow> int \<Rightarrow> ('img \<times> labels) list \<Rightarrow> ('img \<times> labels) list
     \<Rightarrow> int \<Rightarrow> 'p run \<Rightarrow> error + 'p run" where
  "epoch_body env update_step warmup train_loader test_loader epoch st =
     (let current_lr = lr (session st)
      in case train_epoch env epoch warmup train_loader (session st) of
           Inl e \<Rightarrow> Inl e
         | Inr r \<Rightarrow>
             record_metrics env update_step test_loader epoch current_lr (snd r)
               (st\<lparr> session := fst r, console := console st @ [Progress_Train] \<rparr>))"

fun epoch_loop ::
  "('p, 'img) collaborators \<Rightarrow> int \<Rightarrow> int \<Rightarrow> ('img \<times> labels) list \<Rightarrow> ('img \<times> labels) list
     \<Rightarrow> int list \<Rightarrow> 'p run \<Rightarrow> error + 'p run" where
  "epoch_loop env update_step warmup train_loader test_loader [] st = Inr st"
| "epoch_loop env update_step warmup train_loader test_loader (epoch # es) st =
     (case epoch_body env update_step warmup train_loader test_loader epoch st of
        Inl e \<Rightarrow> Inl e
      | Inr st' \<Rightarrow> epoch_loop env update_step warmup train_loader test_loader es st')"

text \<open>\<^verbatim>\<open>range(n)\<close>.\<close>

definition range_upto :: "int \<Rightarrow> int list" where
  "range_upto n = map int [0..<nat n]"

text \<open>
  \<^verbatim>\<open>max(xs)\<close> of a non-empty list, as the built-in computes it: one pass keeping the larger
  element. \<^verbatim>\<open>max(xs) if xs else 0.0\<close> is \<open>best\<close> (lines 235--236).
\<close>

definition py_max :: "real list \<Rightarrow> real" where
  "py_max xs = fold (\<lambda>x m. if m < x then x else m) (tl xs) (hd xs)"

definition best :: "real list \<Rightarrow> real" where
  "best xs = (if xs \<noteq> [] then py_max xs else 0)"

text \<open>
  The state before the first epoch (lines 142--162). The optimiser is built with rate
  \<open>0.08\<close>; the scheduler is built from the optimiser, \<open>NUM_STEPS\<close> and \<open>WARMUP_STEPS\<close>, and
  its base rate is taken to be the optimiser's rate, its counter to start at zero (the
  constructor is not among the sources). The initial parameters and the initial scaler
  are given.
\<close>

definition initial_run :: "'p \<Rightarrow> grad_scaler \<Rightarrow> int \<Rightarrow> 'p run" where
  "initial_run p0 sc0 len_train_loader =
     \<lparr> session =
         \<lparr> params = p0, lr = 0.08,
           scheduler = \<lparr> total_steps = NUM_STEPS len_train_loader,
                         warmup_steps = WARMUP_STEPS len_train_loader,
                         base_lr = 0.08, step_counter = 0 \<rparr>,
           scaler = sc0, model_mode = Train \<rparr>,
       train_metrics = \<lparr> top1 = [], top5 = [], loss = [] \<rparr>,
       test_metrics = \<lparr> top1 = [], top5 = [], loss = [] \<rparr>,
       console = [] \<rparr>"

text \<open>The epoch loop of \<^verbatim>\<open>main\<close> cut after \<open>n\<close> epochs; \<^verbatim>\<open>main\<close> runs all \<open>NUM_EPOCHS\<close>.\<close>

definition run_epochs ::
  "('p, 'img) collaborators \<Rightarrow> ('img \<times> labels) list \<Rightarrow> ('img \<times> labels) list \<Rightarrow> 'p
     \<Rightarrow> grad_scaler \<Rightarrow> int \<Rightarrow> error + 'p run" where
  "run_epochs env train_loader test_loader p0 sc0 n =
     epoch_loop env METRICS_UPDATE_STEP (WARMUP_STEPS (int (length train_loader)))
       train_loader test_loader (range_upto n)
       (initial_run p0 sc0 (int (length train_loader)))"

definition main ::
  "('p, 'img) collaborators \<Rightarrow> ('img \<times> labels) list \<Rightarrow> ('img \<times> labels) list \<Rightarrow> 'p
     \<Rightarrow> grad_scaler \<Rightarrow> error + 'p run" where
  "main env train_loader test_loader p0 sc0 =
     (case run_epochs env train_loader test_loader p0 sc0 NUM_EPOCHS of
        Inl e \<Rightarrow> Inl e
      | Inr st \<Rightarrow>
          Inr (st\<lparr> console := console st @
                     [Best_Train (best (top1 (train_metrics st))),
                      Best_Test (best (top1 (test_metrics st)))] \<rparr>))"

subsection \<open>Reference notions for the statements\<close>

text \<open>
  The stream of (output batch, label batch, loss value) tuples that a pass consumes; the
  batch size of a tuple is the actual number of its labels. In a training pass the
  outputs of a batch depend on the session reached after the earlier steps.
\<close>

type_synonym tuple = "outputs \<times> labels \<times> real"

definition consumed :: "('p, 'img) collaborators \<Rightarrow> mode \<Rightarrow> 'p \<Rightarrow> 'img \<times> labels \<Rightarrow> tuple" where
  "consumed env m p b =
     (forward env m p (fst b), snd b, criterion env (forward env m p (fst b)) (snd b))"

definition validate_stream ::
  "('p, 'img) collaborators \<Rightarrow> 'p \<Rightarrow> ('img \<times> labels) list \<Rightarrow> tuple list" where
  "validate_stream env p dataloader = map (consumed env Eval p) dataloader"

fun train_stream ::
  "('p, 'img) collaborators \<Rightarrow> int \<Rightarrow> int \<Rightarrow> ('img \<times> labels) list \<Rightarrow> 'p session \<Rightarrow> tuple list" where
  "train_stream env epoch w [] s = []"
| "train_stream env epoch w (b # bs) s =
     consumed env (model_mode s) (params s) b # train_stream env epoch w bs (next_session env epoch w b s)"

text \<open>A tuple the library calls accept: as many score rows as labels, at least five classes.\<close>

definition well_shaped :: "tuple \<Rightarrow> bool" where
  "well_shaped x =
     (length (fst x) = length (fst (snd x)) \<and> list_all (\<lambda>row. 5 \<le> length row) (fst x))"

text \<open>
  Hits counted sample by sample: a top-1 hit when the label is the first of the five
  ranked classes, a top-5 hit when it is among them.
\<close>

definition spec_top1_hits :: "outputs \<Rightarrow> labels \<Rightarrow> nat" where
  "spec_top1_hits out lbls =
     length (filter (\<lambda>x. topk_row 5 (fst x) ! 0 = snd x) (zip out lbls))"

definition spec_top5_hits :: "outputs \<Rightarrow> labels \<Rightarrow> nat" where
  "spec_top5_hits out lbls =
     length (filter (\<lambda>x. snd x \<in> set (topk_row 5 (fst x))) (zip out lbls))"

definition sample_count :: "tuple list \<Rightarrow> nat" where
  "sample_count xs = sum_list (map (\<lambda>x. length (fst (snd x))) xs)"

definition loss_sum :: "tuple list \<Rightarrow> real" where
  "loss_sum xs = sum_list (map (\<lambda>x. snd (snd x) * real (length (fst (snd x)))) xs)"

definition top1_total :: "tuple list \<Rightarrow> nat" where
  "top1_total xs = sum_list (map (\<lambda>x. spec_top1_hits (fst x) (fst (snd x))) xs)"

definition top5_total :: "tuple list \<Rightarrow> nat" where
  "top5_total xs = sum_list (map (\<lambda>x. spec_top5_hits (fst x) (fst (snd x))) xs)"

text \<open>The epoch record as the specification words it (section 4.4, finalisation).\<close>

definition spec_record :: "tuple list \<Rightarrow> real \<times> real \<times> real" where
  "spec_record xs =
     (loss_sum xs / real (sample_count xs),
      100 * real (top1_total xs) / real (sample_count xs),
      100 * real (top5_total xs) / real (sample_count xs))"

text \<open>Every step of a run of steps computes finite gradients only.\<close>

fun finite_run ::
  "('p, 'img) collaborators \<Rightarrow> int \<Rightarrow> int \<Rightarrow> ('img \<times> labels) list \<Rightarrow> 'p session \<Rightarrow> bool" where
  "finite_run env epoch w [] s = True"
| "finite_run env epoch w (b # bs) s =
     (list_all is_finite (backward env (params s) (fst b) (snd b) (scale_factor (scaler s)))
      \<and> finite_run env epoch w bs (next_session env epoch w b s))"

text \<open>The lengths of the six history lists and the number of evaluation passes shown.\<close>

definition history_lengths :: "'p run \<Rightarrow> nat list" where
  "history_lengths st =
     [length (loss (train_metrics st)), length (top1 (train_metrics st)),
      length (top5 (train_metrics st)), length (loss (test_metrics st)),
      length (top1 (test_metrics st)), length (top5 (test_metrics st)),
      count_list (console st) Progress_Validation]"

subsection \<open>A small concrete instance\<close>

text \<open>
  Input batches that already are score matrices and a network that returns them; the
  loss of a batch is half its size; the optimiser state counts the updates performed.
  \<open>example_hit\<close> has one sample whose label ranks first and one whose label ranks second;
  the label of \<open>example_miss\<close> ranks sixth. \<open>overflow_env\<close> differs only in that
  every backward pass yields a non-finite gradient.
\<close>

definition example_env :: "(nat, outputs) collaborators" where
  "example_env =
     \<lparr> forward = (\<lambda>m p x. x), criterion = (\<lambda>out lbls. real (length lbls) / 2),
       backward = (\<lambda>p x l sf. [Finite sf]), clip_grad_norm = (\<lambda>mx gs. gs),
       sgd_step = (\<lambda>rate p gs. Suc p) \<rparr>"

definition overflow_env :: "(nat, outputs) collaborators" where
  "overflow_env = example_env\<lparr> backward := (\<lambda>p x l sf. [Finite sf, NonFinite]) \<rparr>"

definition example_scaler :: grad_scaler where
  "example_scaler =
     \<lparr> scale_factor = 65536, growth_interval = 2, growth_tracker = 0, found_inf = False \<rparr>"

definition example_hit :: "outputs \<times> labels" where
  "example_hit = ([[6, 5, 4, 3, 2, 1], [6, 5, 4, 3, 2, 1]], [0, 1])"

definition example_miss :: "outputs \<times> labels" where
  "example_miss = ([[1, 2, 3, 4, 5, 6]], [0])"

definition example_session :: "nat session" where
  "example_session =
     \<lparr> params = 0, lr = 0.08,
       scheduler = \<lparr> total_steps = 20, warmup_steps = 5, base_lr = 0.08, step_counter = 0 \<rparr>,
       scaler = example_scaler, model_mode = Train \<rparr>"

definition example_running :: running where
  "example_running =
     \<lparr> running_loss = 0, running_top1_correct = 0, running_top5_correct = 0,
       running_samples = 0 \<rparr>"

definition example_run :: "nat run" where
  "example_run =
     \<lparr> session = example_session,
       train_metrics = \<lparr> top1 = [50], top5 = [75], loss = [1] \<rparr>,
       test_metrics = \<lparr> top1 = [40], top5 = [60], loss = [2] \<rparr>,
       console = [] \<rparr>"

text \<open>
  The session \<open>example_session\<close> after one step that overflowed, and after two steps that
  did not.
\<close>

definition example_after_overflow :: "nat session" where
  "example_after_overflow =
     \<lparr> params = 0, lr = 2 / 125,
       scheduler = \<lparr> total_steps = 20, warmup_steps = 5, base_lr = 0.08, step_counter = 1 \<rparr>,
       scaler = \<lparr> scale_factor = 32768, growth_interval = 2, growth_tracker = 0,
                  found_inf = False \<rparr>,
       model_mode = Train \<rparr>"

definition example_after_two :: "nat session" where
  "example_after_two =
     \<lparr> params = 2, lr = 4 / 125,
       scheduler = \<lparr> total_steps = 20, warmup_steps = 5, base_lr = 0.08, step_counter = 2 \<rparr>,
       scaler = \<lparr> scale_factor = 131072, growth_interval = 2, growth_tracker = 0,
                  found_inf = False \<rparr>,
       model_mode = Train \<rparr>"

text \<open>The tuples a pass over \<open>[example_hit, example_miss]\<close> consumes.\<close>

definition example_stream :: "tuple list" where
  "example_stream =
     [([[6, 5, 4, 3, 2, 1], [6, 5, 4, 3, 2, 1]], [0, 1], 1), ([[1, 2, 3, 4, 5, 6]], [0], 1 / 2)]"

section \<open>Properties\<close>

subsection \<open>Empty histories and the best value\<close>

lemma py_max_fold: "fold (\<lambda>x m. if m < x then x else m) xs (a::real) = Max (set (a # xs))"
proof (induction xs arbitrary: a)
  case Nil
  then show ?case by simp
next
  case (Cons x xs)
  have "Max (insert a (insert x (set xs))) = Max (insert (max a x) (set xs))"
    by (cases "set xs = {}") (simp_all add: max.assoc)
  with Cons show ?case by (simp add: max_def insert_commute)
qed

lemma best_Max: "xs \<noteq> [] \<Longrightarrow> best xs = Max (set xs)"
  by (cases xs) (simp_all add: best_def py_max_def py_max_fold)

text \<open>
  C7. On an epoch that does not evaluate (\<open>epoch mod update_step \<noteq> 0\<close>), when the three
  test-metric lists are empty, the epoch is recorded without an error and its printed
  line carries the sentinel \<open>0.0\<close> for test loss, top-1 and top-5; the test history stays
  as it is. The best-value query is \<open>0\<close> on an empty history and the maximum of the
  entries otherwise; it is a total function, so it never raises.
\<close>

theorem empty_history_sentinel_and_best:
  assumes "update_step \<noteq> 0" and "epoch mod update_step \<noteq> 0"
    and "loss (test_metrics st) = []" and "top1 (test_metrics st) = []"
    and "top5 (test_metrics st) = []"
  shows "record_metrics env update_step test_loader epoch current_lr tr st =
           Inr (st\<lparr> train_metrics := append_metrics (train_metrics st) tr,
                    console := console st @
                      [Epoch_Line (make_line epoch current_lr tr (0, 0, 0))] \<rparr>)
         \<and> best [] = 0
         \<and> (\<forall>xs. xs \<noteq> [] \<longrightarrow> best xs = Max (set xs))"
  using assms by (simp add: record_metrics_def last_or_zero_def best_Max) (simp add: best_def)

theorem empty_history_sentinel_and_best_witness:
  "(2::int) \<noteq> 0 \<and> (1::int) mod 2 \<noteq> 0
   \<and> loss (test_metrics (initial_run (0::nat) example_scaler 1)) = []
   \<and> top1 (test_metrics (initial_run (0::nat) example_scaler 1)) = []
   \<and> top5 (test_metrics (initial_run (0::nat) example_scaler 1)) = []
   \<and> record_metrics example_env 2 [] 1 (2 / 25) (1, 50, 75) (initial_run 0 example_scaler 1) =
       Inr ((initial_run 0 example_scaler 1)
              \<lparr> train_metrics := \<lparr> top1 = [50], top5 = [75], loss = [1] \<rparr>,
                console := [Epoch_Line (make_line 1 (2 / 25) (1, 50, 75) (0, 0, 0))] \<rparr>)
   \<and> best [] = 0
   \<and> best [1, 3, 2] = 3"
proof -
  let ?st = "initial_run (0::nat) example_scaler 1"
  have h: "(2::int) \<noteq> 0" "(1::int) mod 2 \<noteq> 0" "loss (test_metrics ?st) = []"
    "top1 (test_metrics ?st) = []" "top5 (test_metrics ?st) = []"
    by (simp_all add: initial_run_def)
  have "best [1, 3, 2] = Max (set [1, 3, 2 :: real])"
    using empty_history_sentinel_and_best [OF h] by blast
  then have b: "best [1, 3, 2] = 3" by simp
  show ?thesis
    using h b empty_history_sentinel_and_best [OF h, of example_env "[]" "2 / 25" "(1, 50, 75)"]
    by (simp add: append_metrics_def initial_run_def)
qed

subsection \<open>Ranking\<close>

lemma length_topk_row: "k \<le> length row \<Longrightarrow> length (topk_row k row) = k"
  by (simp add: topk_row_def)

lemma distinct_topk_row: "distinct (topk_row k row)"
proof -
  let ?zs = "zip row [0..<length row]"
  have "map snd ?zs = [0..<length row]" by simp
  then have "distinct (map snd ?zs)" by simp
  then have "distinct ?zs \<and> inj_on snd (set ?zs)" by (simp only: distinct_map)
  then have "distinct (map snd (sort_key (\<lambda>p. - fst p) ?zs))"
    by (simp only: distinct_map distinct_sort set_sort simp_thms)
  then show ?thesis unfolding topk_row_def by (rule distinct_take)
qed

subsection \<open>Counting hits\<close>

lemma count_swap:
  "(\<Sum>r\<leftarrow>rs. length (filter (P r) zs)) = (\<Sum>z\<leftarrow>zs. \<Sum>r\<leftarrow>rs. if P r z then 1 else 0)"
proof (induction zs)
  case Nil
  then show ?case by simp
next
  case (Cons z zs)
  have "(\<Sum>r\<leftarrow>rs. length (filter (P r) (z # zs)))
        = (\<Sum>r\<leftarrow>rs. (if P r z then 1 else 0) + length (filter (P r) zs))"
    by (rule arg_cong [where f = sum_list]) simp
  also have "\<dots> = (\<Sum>r\<leftarrow>rs. if P r z then 1 else 0) + (\<Sum>r\<leftarrow>rs. length (filter (P r) zs))"
    by (simp add: sum_list_addf)
  finally show ?case using Cons by simp
qed

lemma rank_row_hits:
  "length (filter (\<lambda>b. b) (map2 (\<lambda>c l. c = l) (map (\<lambda>row. row ! r) pred) lbls))
   = length (filter (\<lambda>x. fst x ! r = snd x) (zip pred lbls))"
proof -
  have "zip (map (\<lambda>row. row ! r) pred) lbls = map (\<lambda>x. (fst x ! r, snd x)) (zip pred lbls)"
    by (simp add: zip_map1 case_prod_unfold)
  then show ?thesis by (simp add: filter_map comp_def case_prod_unfold)
qed

lemma float_sum_take:
  assumes "n \<le> 5"
  shows "float_sum (take n (eq_labels (t 5 pred) lbls))
         = real (\<Sum>z\<leftarrow>zip pred lbls. \<Sum>r\<leftarrow>[0..<n]. if fst z ! r = snd z then 1 else 0)"
proof -
  have "take n (eq_labels (t 5 pred) lbls)
        = map (\<lambda>r. map2 (\<lambda>c l. c = l) (map (\<lambda>row. row ! r) pred) lbls) [0..<n]"
    using assms by (simp add: eq_labels_def t_def take_map min_def)
  then have "float_sum (take n (eq_labels (t 5 pred) lbls))
        = real (\<Sum>r\<leftarrow>[0..<n]. length (filter (\<lambda>x. fst x ! r = snd x) (zip pred lbls)))"
    by (simp only: float_sum_def map_map comp_def rank_row_hits)
  then show ?thesis by (simp add: count_swap [where P = "\<lambda>r x. fst x ! r = snd x"])
qed

lemma count_member_distinct:
  "distinct xs \<Longrightarrow> (\<Sum>x\<leftarrow>xs. if x = l then 1 else 0) = (if l \<in> set xs then 1 else (0::nat))"
  by (induction xs) auto

lemma count_ranks_distinct:
  assumes "distinct xs" and "length xs = n"
  shows "(\<Sum>r\<leftarrow>[0..<n]. if xs ! r = l then 1 else 0) = (if l \<in> set xs then 1 else (0::nat))"
proof -
  have "(\<Sum>r\<leftarrow>[0..<n]. if xs ! r = l then 1 else (0::nat))
        = sum_list (map (\<lambda>x. if x = l then 1 else 0) (map ((!) xs) [0..<length xs]))"
    using assms(2) by (simp add: comp_def)
  also have "\<dots> = (\<Sum>x\<leftarrow>xs. if x = l then 1 else 0)" by (simp only: map_nth)
  finally show ?thesis using assms(1) by (simp add: count_member_distinct)
qed

lemma sum_list_indicator: "(\<Sum>z\<leftarrow>zs. if P z then 1 else 0) = length (filter P zs)"
  by (induction zs) auto

lemma correct_counts_spec:
  assumes "list_all (\<lambda>row. 5 \<le> length row) out"
  shows "correct_counts out lbls
         = Inr (real (spec_top1_hits out lbls), real (spec_top5_hits out lbls))"
proof -
  let ?pred = "map (topk_row 5) out"
  have z: "zip ?pred lbls = map (\<lambda>x. (topk_row 5 (fst x), snd x)) (zip out lbls)"
    by (simp add: zip_map1 case_prod_unfold)
  have one: "float_sum (take 1 (eq_labels (t 5 ?pred) lbls)) = real (spec_top1_hits out lbls)"
    by (simp add: float_sum_take z comp_def spec_top1_hits_def sum_list_indicator)
  have five: "(\<Sum>r\<leftarrow>[0..<5]. if topk_row 5 (fst x) ! r = snd x then 1 else 0)
              = (if snd x \<in> set (topk_row 5 (fst x)) then 1 else (0::nat))"
    if "x \<in> set (zip out lbls)" for x
  proof -
    from that have "fst x \<in> set out" by (metis in_set_zipE prod.collapse)
    with assms have "5 \<le> length (fst x)" by (simp add: list_all_iff)
    then have "length (topk_row 5 (fst x)) = 5" by (rule length_topk_row)
    with distinct_topk_row show ?thesis by (rule count_ranks_distinct)
  qed
  have "float_sum (take 5 (eq_labels (t 5 ?pred) lbls))
        = real (\<Sum>x\<leftarrow>zip out lbls. \<Sum>r\<leftarrow>[0..<5]. if topk_row 5 (fst x) ! r = snd x then 1 else 0)"
    by (simp add: float_sum_take z comp_def)
  also have "\<dots> = real (\<Sum>x\<leftarrow>zip out lbls. if snd x \<in> set (topk_row 5 (fst x)) then 1 else 0)"
    using five by (simp cong: map_cong)
  finally have five': "float_sum (take 5 (eq_labels (t 5 ?pred) lbls)) = real (spec_top5_hits out lbls)"
    by (simp add: spec_top5_hits_def sum_list_indicator)
  show ?thesis using assms one five' by (simp add: correct_counts_def topk_def)
qed

lemma correct_counts_Inr_shape:
  "correct_counts out lbls = Inr c \<Longrightarrow> list_all (\<lambda>row. 5 \<le> length row) out"
  by (cases "list_all (\<lambda>row. 5 \<le> length row) out") (simp_all add: correct_counts_def topk_def)

lemma length_filter_mono:
  "(\<And>x. x \<in> set xs \<Longrightarrow> P x \<Longrightarrow> Q x) \<Longrightarrow> length (filter P xs) \<le> length (filter Q xs)"
  by (induction xs) auto

lemma hits_le:
  assumes "list_all (\<lambda>row. 5 \<le> length row) out"
  shows "spec_top1_hits out lbls \<le> spec_top5_hits out lbls"
    and "spec_top5_hits out lbls \<le> length lbls"
proof -
  have "snd x \<in> set (topk_row 5 (fst x))"
    if "x \<in> set (zip out lbls)" and "topk_row 5 (fst x) ! 0 = snd x" for x
  proof -
    from that(1) have "fst x \<in> set out" by (metis in_set_zipE prod.collapse)
    with assms have "5 \<le> length (fst x)" by (simp add: list_all_iff)
    then have "length (topk_row 5 (fst x)) = 5" by (rule length_topk_row)
    then have "topk_row 5 (fst x) ! 0 \<in> set (topk_row 5 (fst x))" by simp
    with that(2) show ?thesis by simp
  qed
  then show "spec_top1_hits out lbls \<le> spec_top5_hits out lbls"
    unfolding spec_top1_hits_def spec_top5_hits_def by (rule length_filter_mono)
  have "length (filter (\<lambda>x. snd x \<in> set (topk_row 5 (fst x))) (zip out lbls)) \<le> length (zip out lbls)"
    by (rule length_filter_le)
  then show "spec_top5_hits out lbls \<le> length lbls"
    by (simp add: spec_top5_hits_def)
qed


subsection \<open>The evaluation pass\<close>

lemma validate_batch_ok:
  assumes "well_shaped (consumed env Eval p b)"
  shows "validate_batch env p b acc =
    Inr \<lparr> total_loss = total_loss acc + loss_sum [consumed env Eval p b],
          total_samples = total_samples acc + sample_count [consumed env Eval p b],
          top1_correct = top1_correct acc + real (top1_total [consumed env Eval p b]),
          top5_correct = top5_correct acc + real (top5_total [consumed env Eval p b]) \<rparr>"
  using assms
  by (simp add: validate_batch_def Let_def apply_criterion_def well_shaped_def consumed_def
      correct_counts_spec loss_sum_def sample_count_def top1_total_def top5_total_def)

lemma validate_batch_shape:
  assumes "validate_batch env p b acc = Inr acc'"
  shows "well_shaped (consumed env Eval p b)"
proof -
  from assms have len: "length (forward env Eval p (fst b)) = length (snd b)"
    by (cases "length (forward env Eval p (fst b)) = length (snd b)")
      (simp_all add: validate_batch_def apply_criterion_def)
  with assms obtain c where "correct_counts (forward env Eval p (fst b)) (snd b) = Inr c"
    by (cases "correct_counts (forward env Eval p (fst b)) (snd b)")
      (simp_all add: validate_batch_def apply_criterion_def)
  then have "list_all (\<lambda>row. 5 \<le> length row) (forward env Eval p (fst b))"
    by (rule correct_counts_Inr_shape)
  with len show ?thesis by (simp add: well_shaped_def consumed_def)
qed

lemma totals_append:
  "loss_sum (x # xs) = loss_sum [x] + loss_sum xs"
  "sample_count (x # xs) = sample_count [x] + sample_count xs"
  "top1_total (x # xs) = top1_total [x] + top1_total xs"
  "top5_total (x # xs) = top5_total [x] + top5_total xs"
  by (simp_all add: loss_sum_def sample_count_def top1_total_def top5_total_def)

lemma validate_loop_ok:
  assumes "list_all well_shaped (validate_stream env p dl)"
  shows "validate_loop env p dl acc =
    Inr \<lparr> total_loss = total_loss acc + loss_sum (validate_stream env p dl),
          total_samples = total_samples acc + sample_count (validate_stream env p dl),
          top1_correct = top1_correct acc + real (top1_total (validate_stream env p dl)),
          top5_correct = top5_correct acc + real (top5_total (validate_stream env p dl)) \<rparr>"
  using assms
proof (induction dl arbitrary: acc)
  case Nil
  then show ?case
    by (simp add: validate_stream_def loss_sum_def sample_count_def top1_total_def top5_total_def)
next
  case (Cons b dl)
  from Cons.prems have b: "well_shaped (consumed env Eval p b)"
    and dl: "list_all well_shaped (validate_stream env p dl)"
    by (simp_all add: validate_stream_def)
  have s: "validate_stream env p (b # dl) = consumed env Eval p b # validate_stream env p dl"
    by (simp add: validate_stream_def)
  show ?case
    unfolding s totals_append [of "consumed env Eval p b" "validate_stream env p dl"]
    by (simp add: validate_batch_ok [OF b] Cons.IH [OF dl] add.assoc)
qed

lemma validate_loop_shape:
  "validate_loop env p dl acc = Inr acc' \<Longrightarrow> list_all well_shaped (validate_stream env p dl)"
proof (induction dl arbitrary: acc)
  case Nil
  then show ?case by (simp add: validate_stream_def)
next
  case (Cons b dl)
  from Cons.prems obtain acc1 where 1: "validate_batch env p b acc = Inr acc1"
    and 2: "validate_loop env p dl acc1 = Inr acc'"
    by (cases "validate_batch env p b acc") simp_all
  from 1 have "well_shaped (consumed env Eval p b)" by (rule validate_batch_shape)
  moreover from 2 have "list_all well_shaped (validate_stream env p dl)" by (rule Cons.IH)
  ultimately show ?case by (simp add: validate_stream_def)
qed

lemma validate_ok:
  assumes "list_all well_shaped (validate_stream env p dl)"
    and "0 < sample_count (validate_stream env p dl)"
  shows "validate env p dl = Inr (spec_record (validate_stream env p dl))"
  using assms(2) by (simp add: validate_def validate_loop_ok [OF assms(1)] spec_record_def)

lemma validate_Inr:
  assumes "validate env p dl = Inr r"
  shows "list_all well_shaped (validate_stream env p dl)"
    and "0 < sample_count (validate_stream env p dl)"
    and "r = spec_record (validate_stream env p dl)"
proof -
  from assms obtain acc where
    l: "validate_loop env p dl
          \<lparr> total_loss = 0, total_samples = 0, top1_correct = 0, top5_correct = 0 \<rparr> = Inr acc"
    by (cases "validate_loop env p dl
          \<lparr> total_loss = 0, total_samples = 0, top1_correct = 0, top5_correct = 0 \<rparr>")
      (simp_all add: validate_def)
  then show ws: "list_all well_shaped (validate_stream env p dl)" by (rule validate_loop_shape)
  from l have acc: "total_samples acc = sample_count (validate_stream env p dl)"
    by (auto simp add: validate_loop_ok [OF ws])
  from assms l have "total_samples acc \<noteq> 0"
    by (cases "total_samples acc = 0") (simp_all add: validate_def)
  with acc show pos: "0 < sample_count (validate_stream env p dl)" by simp
  from assms show "r = spec_record (validate_stream env p dl)"
    by (simp add: validate_ok [OF ws pos])
qed

subsection \<open>The training pass\<close>

lemma train_step_ok:
  assumes "well_shaped (consumed env (model_mode s) (params s) b)"
  shows "train_step env epoch w b (s, acc) =
    Inr (next_session env epoch w b s,
         \<lparr> running_loss = running_loss acc + loss_sum [consumed env (model_mode s) (params s) b],
           running_top1_correct =
             running_top1_correct acc + real (top1_total [consumed env (model_mode s) (params s) b]),
           running_top5_correct =
             running_top5_correct acc + real (top5_total [consumed env (model_mode s) (params s) b]),
           running_samples =
             running_samples acc + sample_count [consumed env (model_mode s) (params s) b] \<rparr>)"
  using assms
  by (simp add: train_step_def Let_def apply_criterion_def well_shaped_def consumed_def
      correct_counts_spec loss_sum_def sample_count_def top1_total_def top5_total_def)

lemma train_step_shape:
  assumes "train_step env epoch w b (s, acc) = Inr sr"
  shows "well_shaped (consumed env (model_mode s) (params s) b)"
proof -
  let ?out = "forward env (model_mode s) (params s) (fst b)"
  from assms have len: "length ?out = length (snd b)"
    by (cases "length ?out = length (snd b)") (simp_all add: train_step_def apply_criterion_def)
  with assms obtain c where "correct_counts ?out (snd b) = Inr c"
    by (cases "correct_counts ?out (snd b)") (simp_all add: train_step_def apply_criterion_def)
  then have "list_all (\<lambda>row. 5 \<le> length row) ?out" by (rule correct_counts_Inr_shape)
  with len show ?thesis by (simp add: well_shaped_def consumed_def)
qed

lemma train_step_session:
  assumes "train_step env epoch w b (s, acc) = Inr sr"
  shows "fst sr = next_session env epoch w b s"
  using assms train_step_ok [OF train_step_shape [OF assms], of epoch w acc] by auto

lemma train_loop_ok:
  assumes "list_all well_shaped (train_stream env epoch w bs s)"
  shows "train_loop env epoch w bs (s, acc) =
    Inr (fold (next_session env epoch w) bs s,
         \<lparr> running_loss = running_loss acc + loss_sum (train_stream env epoch w bs s),
           running_top1_correct =
             running_top1_correct acc + real (top1_total (train_stream env epoch w bs s)),
           running_top5_correct =
             running_top5_correct acc + real (top5_total (train_stream env epoch w bs s)),
           running_samples = running_samples acc + sample_count (train_stream env epoch w bs s) \<rparr>)"
  using assms
proof (induction bs arbitrary: s acc)
  case Nil
  then show ?case
    by (simp add: loss_sum_def sample_count_def top1_total_def top5_total_def)
next
  case (Cons b bs)
  let ?x = "consumed env (model_mode s) (params s) b"
  let ?s1 = "next_session env epoch w b s"
  from Cons.prems have b: "well_shaped ?x"
    and bs: "list_all well_shaped (train_stream env epoch w bs ?s1)"
    by simp_all
  have s: "train_stream env epoch w (b # bs) s = ?x # train_stream env epoch w bs ?s1"
    by simp
  show ?case
    unfolding s totals_append [of ?x "train_stream env epoch w bs ?s1"]
    by (simp add: train_step_ok [OF b] Cons.IH [OF bs] add.assoc)
qed

lemma train_loop_shape:
  "train_loop env epoch w bs (s, acc) = Inr sr \<Longrightarrow> list_all well_shaped (train_stream env epoch w bs s)"
proof (induction bs arbitrary: s acc)
  case Nil
  then show ?case by simp
next
  case (Cons b bs)
  from Cons.prems obtain sr1 where 1: "train_step env epoch w b (s, acc) = Inr sr1"
    and 2: "train_loop env epoch w bs sr1 = Inr sr"
    by (cases "train_step env epoch w b (s, acc)") simp_all
  from 1 have x: "well_shaped (consumed env (model_mode s) (params s) b)"
    by (rule train_step_shape)
  from 1 have "fst sr1 = next_session env epoch w b s" by (rule train_step_session)
  then have "sr1 = (next_session env epoch w b s, snd sr1)" by (cases sr1) simp
  with 2 have "train_loop env epoch w bs (next_session env epoch w b s, snd sr1) = Inr sr"
    by simp
  then have "list_all well_shaped (train_stream env epoch w bs (next_session env epoch w b s))"
    by (rule Cons.IH)
  with x show ?case by simp
qed

lemma train_epoch_ok:
  assumes "list_all well_shaped (train_stream env epoch w bs (s\<lparr> model_mode := Train \<rparr>))"
    and "0 < sample_count (train_stream env epoch w bs (s\<lparr> model_mode := Train \<rparr>))"
  shows "train_epoch env epoch w bs s =
    Inr (fold (next_session env epoch w) bs (s\<lparr> model_mode := Train \<rparr>),
         spec_record (train_stream env epoch w bs (s\<lparr> model_mode := Train \<rparr>)))"
  using assms(2) by (simp add: train_epoch_def train_loop_ok [OF assms(1)] spec_record_def)

lemma train_epoch_Inr:
  assumes "train_epoch env epoch w bs s = Inr r"
  shows "list_all well_shaped (train_stream env epoch w bs (s\<lparr> model_mode := Train \<rparr>))"
    and "0 < sample_count (train_stream env epoch w bs (s\<lparr> model_mode := Train \<rparr>))"
    and "r = (fold (next_session env epoch w) bs (s\<lparr> model_mode := Train \<rparr>),
              spec_record (train_stream env epoch w bs (s\<lparr> model_mode := Train \<rparr>)))"
proof -
  let ?s = "s\<lparr> model_mode := Train \<rparr>"
  let ?z = "\<lparr> running_loss = 0, running_top1_correct = 0, running_top5_correct = 0,
              running_samples = 0 \<rparr>"
  from assms obtain sr where l: "train_loop env epoch w bs (?s, ?z) = Inr sr"
    by (cases "train_loop env epoch w bs (?s, ?z)") (simp_all add: train_epoch_def)
  then show ws: "list_all well_shaped (train_stream env epoch w bs ?s)"
    by (rule train_loop_shape)
  from l have acc: "running_samples (snd sr) = sample_count (train_stream env epoch w bs ?s)"
    by (auto simp add: train_loop_ok [OF ws])
  from assms l have "running_samples (snd sr) \<noteq> 0"
    by (cases "running_samples (snd sr) = 0") (simp_all add: train_epoch_def)
  with acc show pos: "0 < sample_count (train_stream env epoch w bs ?s)" by simp
  from assms show "r = (fold (next_session env epoch w) bs ?s,
                        spec_record (train_stream env epoch w bs ?s))"
    by (simp add: train_epoch_ok [OF ws pos])
qed



subsection \<open>Epoch records\<close>

lemma totals_le:
  assumes "list_all well_shaped xs"
  shows "top1_total xs \<le> top5_total xs" and "top5_total xs \<le> sample_count xs"
proof -
  have "spec_top1_hits (fst x) (fst (snd x)) \<le> spec_top5_hits (fst x) (fst (snd x))
        \<and> spec_top5_hits (fst x) (fst (snd x)) \<le> length (fst (snd x))"
    if "x \<in> set xs" for x
  proof -
    from assms that have "list_all (\<lambda>row. 5 \<le> length row) (fst x)"
      by (simp add: list_all_iff well_shaped_def)
    then show ?thesis by (simp add: hits_le)
  qed
  then show "top1_total xs \<le> top5_total xs" and "top5_total xs \<le> sample_count xs"
    unfolding top1_total_def top5_total_def sample_count_def
    by (simp_all add: sum_list_mono)
qed

lemma spec_record_bounds:
  assumes "list_all well_shaped xs" and "0 < sample_count xs"
  shows "0 \<le> fst (snd (spec_record xs))"
    and "fst (snd (spec_record xs)) \<le> snd (snd (spec_record xs))"
    and "snd (snd (spec_record xs)) \<le> 100"
proof -
  from assms(2) have n: "0 < real (sample_count xs)" by simp
  show "0 \<le> fst (snd (spec_record xs))" by (simp add: spec_record_def)
  from totals_le(1) [OF assms(1)] have "real (top1_total xs) \<le> real (top5_total xs)" by simp
  with n show "fst (snd (spec_record xs)) \<le> snd (snd (spec_record xs))"
    by (simp add: spec_record_def divide_right_mono)
  from totals_le(2) [OF assms(1)] have "real (top5_total xs) \<le> real (sample_count xs)" by simp
  with n show "snd (snd (spec_record xs)) \<le> 100"
    by (simp add: spec_record_def pos_divide_le_eq)
qed


subsection \<open>The concrete instance, evaluated\<close>

lemma example_validate_stream:
  "validate_stream example_env p [example_hit, example_miss] = example_stream"
  by (simp add: validate_stream_def consumed_def example_env_def example_hit_def
      example_miss_def example_stream_def)

lemma example_train_stream:
  "train_stream example_env epoch w [example_hit, example_miss] s = example_stream"
  by (simp add: consumed_def example_env_def example_hit_def example_miss_def example_stream_def)

lemma example_stream_shape: "list_all well_shaped example_stream"
  by (simp add: example_stream_def well_shaped_def)

lemma example_topk_row:
  "topk_row 5 [6, 5, 4, 3, 2, 1] = [0, 1, 2, 3, 4]"
  "topk_row 5 [1, 2, 3, 4, 5, 6] = [5, 4, 3, 2, 1]"
proof -
  have u: "[0..<6] = [0, 1, 2, 3, 4, 5]" by (simp add: upt_rec)
  show "topk_row 5 [6, 5, 4, 3, 2, 1] = [0, 1, 2, 3, 4]"
    by (simp add: topk_row_def u)
  show "topk_row 5 [1, 2, 3, 4, 5, 6] = [5, 4, 3, 2, 1]"
    by (simp add: topk_row_def u)
qed

lemma example_stream_totals:
  "sample_count example_stream = 3" "loss_sum example_stream = 5 / 2"
  "top1_total example_stream = 1" "top5_total example_stream = 2"
  by (simp_all add: example_stream_def sample_count_def loss_sum_def top1_total_def
      top5_total_def spec_top1_hits_def spec_top5_hits_def example_topk_row)

lemma example_fold_session:
  "fold (next_session example_env 0 0) [example_hit, example_miss]
     (example_session\<lparr> model_mode := Train \<rparr>) =
     \<lparr> params = 2, lr = 4 / 125,
       scheduler = \<lparr> total_steps = 20, warmup_steps = 5, base_lr = 0.08, step_counter = 2 \<rparr>,
       scaler = \<lparr> scale_factor = 131072, growth_interval = 2, growth_tracker = 0,
                  found_inf = False \<rparr>,
       model_mode = Train \<rparr>"
  by (simp add: next_session_def optimizer_phase_def maybe_clip_def GradScaler_step_def
      GradScaler_unscale_def GradScaler_update_def WarmupCosineScheduler_step_def
      warmup_cosine_def is_finite_def unscale_grad_def example_env_def example_session_def
      example_scaler_def Let_def)

text \<open>
  C3. When every tuple of a pass is well shaped and the pass sees at least one sample, the
  record produced is: average loss = (sum of loss value times batch size) / (sum of batch
  sizes), top-1 = 100 * (top-1 hits) / (sum of batch sizes), top-5 likewise, the batch size
  of a tuple being its actual number of labels. This holds for \<^verbatim>\<open>validate\<close> and for the
  training pass of an epoch, whose tuples are those of the sessions the steps run through.
\<close>

theorem epoch_record_formula:
  "(list_all well_shaped (validate_stream env p dl) \<and> 0 < sample_count (validate_stream env p dl)
      \<longrightarrow> validate env p dl =
            Inr (loss_sum (validate_stream env p dl) / real (sample_count (validate_stream env p dl)),
                 100 * real (top1_total (validate_stream env p dl))
                   / real (sample_count (validate_stream env p dl)),
                 100 * real (top5_total (validate_stream env p dl))
                   / real (sample_count (validate_stream env p dl))))
   \<and> (list_all well_shaped (train_stream env epoch w bs (s\<lparr> model_mode := Train \<rparr>))
        \<and> 0 < sample_count (train_stream env epoch w bs (s\<lparr> model_mode := Train \<rparr>))
      \<longrightarrow> train_epoch env epoch w bs s =
            Inr (fold (next_session env epoch w) bs (s\<lparr> model_mode := Train \<rparr>),
                 loss_sum (train_stream env epoch w bs (s\<lparr> model_mode := Train \<rparr>))
                   / real (sample_count (train_stream env epoch w bs (s\<lparr> model_mode := Train \<rparr>))),
                 100 * real (top1_total (train_stream env epoch w bs (s\<lparr> model_mode := Train \<rparr>)))
                   / real (sample_count (train_stream env epoch w bs (s\<lparr> model_mode := Train \<rparr>))),
                 100 * real (top5_total (train_stream env epoch w bs (s\<lparr> model_mode := Train \<rparr>)))
                   / real (sample_count (train_stream env epoch w bs (s\<lparr> model_mode := Train \<rparr>)))))"
  using validate_ok [of env p dl] train_epoch_ok [of env epoch w bs s]
  by (simp add: spec_record_def)

theorem epoch_record_formula_witness:
  "list_all well_shaped (validate_stream example_env 0 [example_hit, example_miss])
   \<and> 0 < sample_count (validate_stream example_env 0 [example_hit, example_miss])
   \<and> validate example_env 0 [example_hit, example_miss] = Inr (5 / 6, 100 / 3, 200 / 3)
   \<and> list_all well_shaped
        (train_stream example_env 0 0 [example_hit, example_miss]
           (example_session\<lparr> model_mode := Train \<rparr>))
   \<and> 0 < sample_count
        (train_stream example_env 0 0 [example_hit, example_miss]
           (example_session\<lparr> model_mode := Train \<rparr>))
   \<and> train_epoch example_env 0 0 [example_hit, example_miss] example_session =
       Inr (\<lparr> params = 2, lr = 4 / 125,
              scheduler =
                \<lparr> total_steps = 20, warmup_steps = 5, base_lr = 0.08, step_counter = 2 \<rparr>,
              scaler = \<lparr> scale_factor = 131072, growth_interval = 2, growth_tracker = 0,
                         found_inf = False \<rparr>,
              model_mode = Train \<rparr>,
            5 / 6, 100 / 3, 200 / 3)"
  using epoch_record_formula [of example_env 0 "[example_hit, example_miss]" 0 0
      "[example_hit, example_miss]" example_session]
  by (simp only: example_validate_stream example_train_stream example_stream_shape
      example_stream_totals example_fold_session) simp

text \<open>
  C9. The hit counts of a batch satisfy \<open>0 \<le> top1 \<le> top5 \<le> batch size\<close>, because the top-1
  row is the first of the five rank rows and the five ranked classes of a sample are
  distinct. Hence every record produced by \<^verbatim>\<open>validate\<close> or by the training pass of an
  epoch has \<open>0 \<le> top1 \<le> top5 \<le> 100\<close>.
\<close>

theorem top1_le_top5:
  "(correct_counts out lbls = Inr c
      \<longrightarrow> 0 \<le> fst c \<and> fst c \<le> snd c \<and> snd c \<le> real (length lbls))
   \<and> (validate env p dl = Inr r
      \<longrightarrow> 0 \<le> fst (snd r) \<and> fst (snd r) \<le> snd (snd r) \<and> snd (snd r) \<le> 100)
   \<and> (train_epoch env epoch w bs s = Inr (s', r')
      \<longrightarrow> 0 \<le> fst (snd r') \<and> fst (snd r') \<le> snd (snd r') \<and> snd (snd r') \<le> 100)"
proof (intro conjI impI)
  assume c: "correct_counts out lbls = Inr c"
  then have sh: "list_all (\<lambda>row. 5 \<le> length row) out" by (rule correct_counts_Inr_shape)
  with c have c': "c = (real (spec_top1_hits out lbls), real (spec_top5_hits out lbls))"
    by (simp add: correct_counts_spec)
  show "0 \<le> fst c" by (simp add: c')
  show "fst c \<le> snd c" using hits_le(1) [OF sh, of lbls] by (simp add: c')
  show "snd c \<le> real (length lbls)" using hits_le(2) [OF sh, of lbls] by (simp add: c')
next
  assume v: "validate env p dl = Inr r"
  note b = spec_record_bounds [OF validate_Inr(1) [OF v] validate_Inr(2) [OF v]]
  show "0 \<le> fst (snd r)" "fst (snd r) \<le> snd (snd r)" "snd (snd r) \<le> 100"
    using b by (simp_all only: validate_Inr(3) [OF v])
next
  assume v: "train_epoch env epoch w bs s = Inr (s', r')"
  note b = spec_record_bounds [OF train_epoch_Inr(1) [OF v] train_epoch_Inr(2) [OF v]]
  from train_epoch_Inr(3) [OF v]
  have r: "r' = spec_record (train_stream env epoch w bs (s\<lparr> model_mode := Train \<rparr>))" by simp
  show "0 \<le> fst (snd r')" "fst (snd r') \<le> snd (snd r')" "snd (snd r') \<le> 100"
    using b by (simp_all only: r)
qed

theorem top1_le_top5_witness:
  "correct_counts (fst example_hit) (snd example_hit) = Inr (1, 2)
   \<and> (0::real) \<le> 1 \<and> (1::real) \<le> 2 \<and> (2::real) \<le> real (length (snd example_hit))
   \<and> validate example_env 0 [example_hit, example_miss] = Inr (5 / 6, 100 / 3, 200 / 3)
   \<and> (0::real) \<le> 100 / 3 \<and> (100::real) / 3 \<le> 200 / 3 \<and> (200::real) / 3 \<le> 100
   \<and> train_epoch example_env 0 0 [example_hit, example_miss] example_session =
       Inr (fold (next_session example_env 0 0) [example_hit, example_miss]
              (example_session\<lparr> model_mode := Train \<rparr>),
            5 / 6, 100 / 3, 200 / 3)"
proof -
  have c: "correct_counts (fst example_hit) (snd example_hit) = Inr (1, 2)"
    by (simp add: correct_counts_spec example_hit_def spec_top1_hits_def spec_top5_hits_def
        example_topk_row)
  have v: "validate example_env 0 [example_hit, example_miss] = Inr (5 / 6, 100 / 3, 200 / 3)"
    by (simp add: validate_ok example_validate_stream example_stream_shape
        example_stream_totals spec_record_def)
  have t: "train_epoch example_env 0 0 [example_hit, example_miss] example_session =
       Inr (fold (next_session example_env 0 0) [example_hit, example_miss]
              (example_session\<lparr> model_mode := Train \<rparr>),
            5 / 6, 100 / 3, 200 / 3)"
    using train_epoch_ok [of example_env 0 0 "[example_hit, example_miss]" example_session,
        unfolded example_train_stream, OF example_stream_shape]
    by (simp add: example_stream_totals spec_record_def)
  show ?thesis
    using c v t
      top1_le_top5 [of "fst example_hit" "snd example_hit" "(1, 2)" example_env 0
        "[example_hit, example_miss]" "(5 / 6, 100 / 3, 200 / 3)" 0 0
        "[example_hit, example_miss]" example_session
        "fold (next_session example_env 0 0) [example_hit, example_miss]
              (example_session\<lparr> model_mode := Train \<rparr>)" "(5 / 6, 100 / 3, 200 / 3)"]
    by (simp add: example_hit_def)
qed


subsection \<open>The epoch body\<close>

lemma record_metrics_eval:
  assumes "update_step \<noteq> 0" and "epoch mod update_step = 0"
    and "validate env (params (session st)) test_loader = Inr te"
  shows "record_metrics env update_step test_loader epoch current_lr tr st =
     Inr (st\<lparr> session := (session st)\<lparr> model_mode := Eval \<rparr>,
              train_metrics := append_metrics (train_metrics st) tr,
              test_metrics := append_metrics (test_metrics st) te,
              console := console st @
                [Progress_Validation, Epoch_Line (make_line epoch current_lr tr te)] \<rparr>)"
  using assms by (simp add: record_metrics_def)

lemma record_metrics_reuse:
  assumes "update_step \<noteq> 0" and "epoch mod update_step \<noteq> 0"
  shows "record_metrics env update_step test_loader epoch current_lr tr st =
     Inr (st\<lparr> train_metrics := append_metrics (train_metrics st) tr,
              console := console st @
                [Epoch_Line (make_line epoch current_lr tr
                   (last_or_zero (loss (test_metrics st)),
                    last_or_zero (top1 (test_metrics st)),
                    last_or_zero (top5 (test_metrics st))))] \<rparr>)"
  using assms by (simp add: record_metrics_def)

lemma record_metrics_Inr:
  assumes "record_metrics env update_step test_loader epoch current_lr tr st = Inr st'"
  shows "update_step \<noteq> 0"
    and "epoch mod update_step = 0 \<Longrightarrow> \<exists>te. validate env (params (session st)) test_loader = Inr te"
proof -
  from assms show u: "update_step \<noteq> 0"
    by (cases "update_step = 0") (simp_all add: record_metrics_def)
  assume "epoch mod update_step = 0"
  with assms u show "\<exists>te. validate env (params (session st)) test_loader = Inr te"
    by (cases "validate env (params (session st)) test_loader")
      (auto simp add: record_metrics_def)
qed

lemma epoch_body_Inr:
  assumes "epoch_body env update_step warmup train_loader test_loader epoch st = Inr st'"
  shows "\<exists>r. train_epoch env epoch warmup train_loader (session st) = Inr r
    \<and> record_metrics env update_step test_loader epoch (lr (session st)) (snd r)
         (st\<lparr> session := fst r, console := console st @ [Progress_Train] \<rparr>) = Inr st'"
  using assms
  by (cases "train_epoch env epoch warmup train_loader (session st)")
    (simp_all add: epoch_body_def)

text \<open>
  C2. For an epoch whose body completes: the training record of the epoch is appended to
  the training history in either case. If \<open>epoch mod update_step = 0\<close> an evaluation pass
  runs (its progress bar is shown), its record is appended to the test history and printed.
  Otherwise no evaluation pass runs, the test history is left as it is, and the printed
  line carries the last entry of each test list (zero for an empty list).
\<close>

theorem evaluation_cadence:
  assumes "train_epoch env epoch warmup train_loader (session st) = Inr (s1, tr)"
    and "epoch_body env update_step warmup train_loader test_loader epoch st = Inr st'"
  shows "train_metrics st' = append_metrics (train_metrics st) tr
    \<and> (if epoch mod update_step = 0
       then \<exists>te. validate env (params s1) test_loader = Inr te
              \<and> test_metrics st' = append_metrics (test_metrics st) te
              \<and> console st' = console st @
                   [Progress_Train, Progress_Validation,
                    Epoch_Line (make_line epoch (lr (session st)) tr te)]
       else test_metrics st' = test_metrics st
              \<and> console st' = console st @
                   [Progress_Train,
                    Epoch_Line (make_line epoch (lr (session st)) tr
                      (if loss (test_metrics st) = [] then 0 else last (loss (test_metrics st)),
                       if top1 (test_metrics st) = [] then 0 else last (top1 (test_metrics st)),
                       if top5 (test_metrics st) = [] then 0 else last (top5 (test_metrics st))))])"
proof -
  let ?st1 = "st\<lparr> session := s1, console := console st @ [Progress_Train] \<rparr>"
  from epoch_body_Inr [OF assms(2)] assms(1)
  have rm: "record_metrics env update_step test_loader epoch (lr (session st)) tr ?st1 = Inr st'"
    by simp
  then have u: "update_step \<noteq> 0" by (rule record_metrics_Inr(1))
  show ?thesis
  proof (cases "epoch mod update_step = 0")
    case True
    from record_metrics_Inr(2) [OF rm True]
    obtain te where te: "validate env (params s1) test_loader = Inr te" by auto
    then have "validate env (params (session ?st1)) test_loader = Inr te" by simp
    from record_metrics_eval [OF u True this, of "lr (session st)" tr] rm
    have "st' = ?st1\<lparr> session := (session ?st1)\<lparr> model_mode := Eval \<rparr>,
              train_metrics := append_metrics (train_metrics ?st1) tr,
              test_metrics := append_metrics (test_metrics ?st1) te,
              console := console ?st1 @
                [Progress_Validation, Epoch_Line (make_line epoch (lr (session st)) tr te)] \<rparr>"
      by simp
    with True te show ?thesis by simp
  next
    case False
    from record_metrics_reuse [OF u False, of env test_loader "lr (session st)" tr ?st1] rm
    have "st' = ?st1\<lparr> train_metrics := append_metrics (train_metrics ?st1) tr,
              console := console ?st1 @
                [Epoch_Line (make_line epoch (lr (session st)) tr
                   (last_or_zero (loss (test_metrics ?st1)),
                    last_or_zero (top1 (test_metrics ?st1)),
                    last_or_zero (top5 (test_metrics ?st1))))] \<rparr>"
      by simp
    with False show ?thesis by (simp add: last_or_zero_def)
  qed
qed

subsection \<open>The epoch loop under the shipped interval\<close>

lemma epoch_body_shipped:
  assumes "epoch_body env METRICS_UPDATE_STEP warmup train_loader test_loader epoch st = Inr st'"
  shows "history_lengths st' = map Suc (history_lengths st)"
proof -
  from epoch_body_Inr [OF assms] obtain r where
    rm: "record_metrics env METRICS_UPDATE_STEP test_loader epoch (lr (session st)) (snd r)
          (st\<lparr> session := fst r, console := console st @ [Progress_Train] \<rparr>) = Inr st'"
    by auto
  let ?st1 = "st\<lparr> session := fst r, console := console st @ [Progress_Train] \<rparr>"
  have u: "METRICS_UPDATE_STEP \<noteq> 0" and m: "epoch mod METRICS_UPDATE_STEP = 0"
    by (simp_all add: METRICS_UPDATE_STEP_def)
  from record_metrics_Inr(2) [OF rm m]
  obtain te where "validate env (params (session ?st1)) test_loader = Inr te" by auto
  from record_metrics_eval [OF u m this, of "lr (session st)" "snd r"] rm
  have "st' = ?st1\<lparr> session := (session ?st1)\<lparr> model_mode := Eval \<rparr>,
            train_metrics := append_metrics (train_metrics ?st1) (snd r),
            test_metrics := append_metrics (test_metrics ?st1) te,
            console := console ?st1 @
              [Progress_Validation, Epoch_Line (make_line epoch (lr (session st)) (snd r) te)] \<rparr>"
    by simp
  then show ?thesis by (simp add: history_lengths_def append_metrics_def)
qed

lemma epoch_loop_shipped:
  "epoch_loop env METRICS_UPDATE_STEP warmup train_loader test_loader es st = Inr st'
   \<Longrightarrow> history_lengths st' = map (\<lambda>n. n + length es) (history_lengths st)"
proof (induction es arbitrary: st)
  case Nil
  then show ?case by simp
next
  case (Cons epoch es)
  from Cons.prems obtain st1 where
    1: "epoch_body env METRICS_UPDATE_STEP warmup train_loader test_loader epoch st = Inr st1"
    and 2: "epoch_loop env METRICS_UPDATE_STEP warmup train_loader test_loader es st1 = Inr st'"
    by (cases "epoch_body env METRICS_UPDATE_STEP warmup train_loader test_loader epoch st")
      simp_all
  from Cons.IH [OF 2] epoch_body_shipped [OF 1] show ?case by simp
qed

text \<open>
  C10. With \<open>METRICS_UPDATE_STEP = 1\<close> the test \<open>epoch mod METRICS_UPDATE_STEP = 0\<close> holds for
  every epoch, so the reuse branch is never taken: when the epochs \<open>0, \<dots>, e\<close> of a run have
  completed, each of the three training lists and each of the three test lists holds
  \<open>e + 1\<close> entries and \<open>e + 1\<close> evaluation passes have run.
\<close>

theorem shipped_interval_evaluates_every_epoch:
  assumes "run_epochs env train_loader test_loader p0 sc0 (int e + 1) = Inr st"
  shows "(\<forall>epoch. epoch mod METRICS_UPDATE_STEP = 0)
    \<and> length (loss (train_metrics st)) = e + 1
    \<and> length (top1 (train_metrics st)) = e + 1
    \<and> length (top5 (train_metrics st)) = e + 1
    \<and> length (loss (test_metrics st)) = e + 1
    \<and> length (top1 (test_metrics st)) = e + 1
    \<and> length (top5 (test_metrics st)) = e + 1
    \<and> count_list (console st) Progress_Validation = e + 1"
proof -
  have "history_lengths st =
      map (\<lambda>n. n + length (range_upto (int e + 1)))
        (history_lengths (initial_run p0 sc0 (int (length train_loader))))"
    using assms unfolding run_epochs_def by (rule epoch_loop_shipped)
  moreover have "length (range_upto (int e + 1)) = e + 1"
    by (simp add: range_upto_def nat_add_distrib)
  ultimately have "history_lengths st = [e + 1, e + 1, e + 1, e + 1, e + 1, e + 1, e + 1]"
    by (simp add: history_lengths_def initial_run_def)
  then show ?thesis by (simp add: history_lengths_def METRICS_UPDATE_STEP_def)
qed


lemma example_train_epoch:
  "train_epoch example_env epoch w [example_hit, example_miss] s =
     Inr (fold (next_session example_env epoch w) [example_hit, example_miss]
            (s\<lparr> model_mode := Train \<rparr>),
          5 / 6, 100 / 3, 200 / 3)"
  using train_epoch_ok [of example_env epoch w "[example_hit, example_miss]" s,
      unfolded example_train_stream, OF example_stream_shape]
  by (simp add: example_stream_totals spec_record_def)

lemma example_validate: "validate example_env p [example_miss] = Inr (1 / 2, 0, 0)"
proof -
  have s: "validate_stream example_env p [example_miss] = [([[1, 2, 3, 4, 5, 6]], [0], 1 / 2)]"
    by (simp add: validate_stream_def consumed_def example_env_def example_miss_def)
  have "validate example_env p [example_miss]
        = Inr (spec_record (validate_stream example_env p [example_miss]))"
    unfolding s by (rule validate_ok [of example_env p "[example_miss]", unfolded s])
      (simp_all add: well_shaped_def sample_count_def)
  then show ?thesis
    unfolding s
    by (simp add: spec_record_def sample_count_def loss_sum_def top1_total_def top5_total_def
        spec_top1_hits_def spec_top5_hits_def example_topk_row)
qed

theorem evaluation_cadence_witness:
  "train_epoch example_env 1 0 [example_hit, example_miss] (session example_run) =
     Inr (fold (next_session example_env 1 0) [example_hit, example_miss]
            (example_session\<lparr> model_mode := Train \<rparr>),
          5 / 6, 100 / 3, 200 / 3)
   \<and> epoch_body example_env 2 0 [example_hit, example_miss] [example_miss] 1 example_run =
     Inr (example_run
           \<lparr> session := fold (next_session example_env 1 0) [example_hit, example_miss]
                          (example_session\<lparr> model_mode := Train \<rparr>),
             train_metrics := \<lparr> top1 = [50, 100 / 3], top5 = [75, 200 / 3], loss = [1, 5 / 6] \<rparr>,
             console := [Progress_Train,
                         Epoch_Line (make_line 1 (2 / 25) (5 / 6, 100 / 3, 200 / 3) (2, 40, 60))] \<rparr>)
   \<and> train_metrics (example_run
           \<lparr> session := fold (next_session example_env 1 0) [example_hit, example_miss]
                          (example_session\<lparr> model_mode := Train \<rparr>),
             train_metrics := \<lparr> top1 = [50, 100 / 3], top5 = [75, 200 / 3], loss = [1, 5 / 6] \<rparr>,
             console := [Progress_Train,
                         Epoch_Line (make_line 1 (2 / 25) (5 / 6, 100 / 3, 200 / 3) (2, 40, 60))] \<rparr>)
       = append_metrics (train_metrics example_run) (5 / 6, 100 / 3, 200 / 3)
   \<and> (1::int) mod 2 \<noteq> 0
   \<and> train_epoch example_env 0 0 [example_hit, example_miss] (session example_run) =
     Inr (fold (next_session example_env 0 0) [example_hit, example_miss]
            (example_session\<lparr> model_mode := Train \<rparr>),
          5 / 6, 100 / 3, 200 / 3)
   \<and> epoch_body example_env 2 0 [example_hit, example_miss] [example_miss] 0 example_run =
     Inr (example_run
           \<lparr> session := (fold (next_session example_env 0 0) [example_hit, example_miss]
                          (example_session\<lparr> model_mode := Train \<rparr>))\<lparr> model_mode := Eval \<rparr>,
             train_metrics := \<lparr> top1 = [50, 100 / 3], top5 = [75, 200 / 3], loss = [1, 5 / 6] \<rparr>,
             test_metrics := \<lparr> top1 = [40, 0], top5 = [60, 0], loss = [2, 1 / 2] \<rparr>,
             console := [Progress_Train, Progress_Validation,
                         Epoch_Line (make_line 0 (2 / 25) (5 / 6, 100 / 3, 200 / 3) (1 / 2, 0, 0))] \<rparr>)
   \<and> (0::int) mod 2 = 0
   \<and> validate example_env
        (params (fold (next_session example_env 0 0) [example_hit, example_miss]
            (example_session\<lparr> model_mode := Train \<rparr>))) [example_miss] = Inr (1 / 2, 0, 0)"
proof -
  let ?bs = "[example_hit, example_miss]"
  let ?s1 = "fold (next_session example_env 1 0) ?bs (example_session\<lparr> model_mode := Train \<rparr>)"
  let ?s0 = "fold (next_session example_env 0 0) ?bs (example_session\<lparr> model_mode := Train \<rparr>)"
  let ?r = "(5 / 6, 100 / 3, 200 / 3) :: real \<times> real \<times> real"
  let ?st1 = "example_run
           \<lparr> session := ?s1,
             train_metrics := \<lparr> top1 = [50, 100 / 3], top5 = [75, 200 / 3], loss = [1, 5 / 6] \<rparr>,
             console := [Progress_Train, Epoch_Line (make_line 1 (2 / 25) ?r (2, 40, 60))] \<rparr>"
  let ?st0 = "example_run
           \<lparr> session := ?s0\<lparr> model_mode := Eval \<rparr>,
             train_metrics := \<lparr> top1 = [50, 100 / 3], top5 = [75, 200 / 3], loss = [1, 5 / 6] \<rparr>,
             test_metrics := \<lparr> top1 = [40, 0], top5 = [60, 0], loss = [2, 1 / 2] \<rparr>,
             console := [Progress_Train, Progress_Validation,
                         Epoch_Line (make_line 0 (2 / 25) ?r (1 / 2, 0, 0))] \<rparr>"
  have t1: "train_epoch example_env 1 0 ?bs (session example_run) = Inr (?s1, ?r)"
    and t0: "train_epoch example_env 0 0 ?bs (session example_run) = Inr (?s0, ?r)"
    by (simp_all only: example_train_epoch) (simp_all add: example_run_def)
  have b1: "epoch_body example_env 2 0 ?bs [example_miss] 1 example_run = Inr ?st1"
    by (simp add: epoch_body_def example_train_epoch record_metrics_def append_metrics_def
        last_or_zero_def) (simp add: example_run_def example_session_def)
  have b0: "epoch_body example_env 2 0 ?bs [example_miss] 0 example_run = Inr ?st0"
    by (simp add: epoch_body_def example_train_epoch record_metrics_def append_metrics_def
        example_validate) (simp add: example_run_def example_session_def)
  show ?thesis
    using t1 b1 t0 b0 evaluation_cadence [OF t1 b1] evaluation_cadence [OF t0 b0]
    by (simp add: example_validate)
qed

lemma example_epoch_body:
  "epoch_body example_env METRICS_UPDATE_STEP w [example_hit, example_miss] [example_miss] epoch st
   = Inr (st\<lparr> session := (fold (next_session example_env epoch w) [example_hit, example_miss]
                              ((session st)\<lparr> model_mode := Train \<rparr>))\<lparr> model_mode := Eval \<rparr>,
               train_metrics := append_metrics (train_metrics st) (5 / 6, 100 / 3, 200 / 3),
               test_metrics := append_metrics (test_metrics st) (1 / 2, 0, 0),
               console := console st @
                 [Progress_Train, Progress_Validation,
                  Epoch_Line (make_line epoch (lr (session st)) (5 / 6, 100 / 3, 200 / 3)
                    (1 / 2, 0, 0))] \<rparr>)"
  by (simp add: epoch_body_def example_train_epoch record_metrics_def example_validate
      METRICS_UPDATE_STEP_def)

theorem shipped_interval_evaluates_every_epoch_witness:
  "\<not> isl (run_epochs example_env [example_hit, example_miss] [example_miss] 0 example_scaler 2)
   \<and> length (loss (train_metrics (projr
        (run_epochs example_env [example_hit, example_miss] [example_miss] 0 example_scaler 2)))) = 2
   \<and> length (top1 (test_metrics (projr
        (run_epochs example_env [example_hit, example_miss] [example_miss] 0 example_scaler 2)))) = 2
   \<and> count_list (console (projr
        (run_epochs example_env [example_hit, example_miss] [example_miss] 0 example_scaler 2)))
        Progress_Validation = 2"
proof -
  let ?run = "run_epochs example_env [example_hit, example_miss] [example_miss] 0 example_scaler"
  have r: "range_upto 2 = [0, 1]" by (simp add: range_upto_def upt_rec)
  have "\<exists>st. ?run 2 = Inr st"
    unfolding run_epochs_def r by (simp add: example_epoch_body)
  then obtain st where st: "?run 2 = Inr st" ..
  then have "?run (int 1 + 1) = Inr st" by simp
  from shipped_interval_evaluates_every_epoch [OF this] show ?thesis by (simp add: st)
qed


subsection \<open>The optimisation step\<close>

lemma optimizer_phase_overflow:
  assumes "\<not> list_all is_finite (backward env (params s) (fst b) (snd b) (scale_factor (scaler s)))"
  shows "params (optimizer_phase env epoch w b s) = params s"
    and "scale_factor (scaler (optimizer_phase env epoch w b s)) = scale_factor (scaler s) / 2"
  using assms
  by (simp_all add: optimizer_phase_def maybe_clip_def GradScaler_step_def GradScaler_unscale_def
      GradScaler_update_def Let_def)

lemma optimizer_phase_finite:
  assumes "list_all is_finite (backward env (params s) (fst b) (snd b) (scale_factor (scaler s)))"
  shows "scaler (optimizer_phase env epoch w b s) =
           GradScaler_update ((scaler s)\<lparr> found_inf := False \<rparr>)"
  using assms
  by (simp add: optimizer_phase_def maybe_clip_def GradScaler_step_def GradScaler_unscale_def
      Let_def)

lemma next_session_fields:
  "params (next_session env epoch w b s) = params (optimizer_phase env epoch w b s)"
  "scaler (next_session env epoch w b s) = scaler (optimizer_phase env epoch w b s)"
  "model_mode (next_session env epoch w b s) = model_mode s"
  "step_counter (scheduler (next_session env epoch w b s)) = step_counter (scheduler s) + 1"
  "total_steps (scheduler (next_session env epoch w b s)) = total_steps (scheduler s)"
  "warmup_steps (scheduler (next_session env epoch w b s)) = warmup_steps (scheduler s)"
  "base_lr (scheduler (next_session env epoch w b s)) = base_lr (scheduler s)"
  "lr (next_session env epoch w b s) =
     warmup_cosine (base_lr (scheduler s)) (total_steps (scheduler s)) (warmup_steps (scheduler s))
       (step_counter (scheduler s))"
  by (simp_all add: next_session_def optimizer_phase_def WarmupCosineScheduler_step_def Let_def)

lemma finite_step_scaler:
  assumes "list_all is_finite (backward env (params s) (fst b) (snd b) (scale_factor (scaler s)))"
  shows "growth_interval (scaler (next_session env epoch w b s)) = growth_interval (scaler s)"
    and "growth_tracker (scaler s) + 1 = growth_interval (scaler s) \<Longrightarrow>
           scale_factor (scaler (next_session env epoch w b s)) = 2 * scale_factor (scaler s)
           \<and> growth_tracker (scaler (next_session env epoch w b s)) = 0"
    and "growth_tracker (scaler s) + 1 \<noteq> growth_interval (scaler s) \<Longrightarrow>
           scale_factor (scaler (next_session env epoch w b s)) = scale_factor (scaler s)
           \<and> growth_tracker (scaler (next_session env epoch w b s)) = growth_tracker (scaler s) + 1"
  by (simp_all add: next_session_fields optimizer_phase_finite [OF assms] GradScaler_update_def)

lemma finite_run_scaler:
  assumes "finite_run env epoch w bs s"
    and "growth_tracker (scaler s) < growth_interval (scaler s)"
    and "length bs \<le> growth_interval (scaler s)"
  shows "growth_interval (scaler (fold (next_session env epoch w) bs s)) = growth_interval (scaler s)
    \<and> (if growth_tracker (scaler s) + length bs < growth_interval (scaler s)
       then scale_factor (scaler (fold (next_session env epoch w) bs s)) = scale_factor (scaler s)
          \<and> growth_tracker (scaler (fold (next_session env epoch w) bs s))
              = growth_tracker (scaler s) + length bs
       else scale_factor (scaler (fold (next_session env epoch w) bs s)) = 2 * scale_factor (scaler s)
          \<and> growth_tracker (scaler (fold (next_session env epoch w) bs s))
              = growth_tracker (scaler s) + length bs - growth_interval (scaler s))"
  using assms
proof (induction bs arbitrary: s)
  case Nil
  then show ?case by simp
next
  case (Cons b bs)
  let ?s1 = "next_session env epoch w b s"
  from Cons.prems(1) have fin: "list_all is_finite
      (backward env (params s) (fst b) (snd b) (scale_factor (scaler s)))"
    and run: "finite_run env epoch w bs ?s1" by simp_all
  note st = finite_step_scaler [OF fin, of epoch w]
  show ?case
  proof (cases "growth_tracker (scaler s) + 1 = growth_interval (scaler s)")
    case True
    with st have 1: "growth_interval (scaler ?s1) = growth_interval (scaler s)"
      "scale_factor (scaler ?s1) = 2 * scale_factor (scaler s)"
      "growth_tracker (scaler ?s1) = 0" by simp_all
    from Cons.prems 1 have "growth_tracker (scaler ?s1) < growth_interval (scaler ?s1)"
      "length bs \<le> growth_interval (scaler ?s1)" by simp_all
    from Cons.IH [OF run this] 1 True Cons.prems(3) show ?thesis by (simp split: if_splits)
  next
    case False
    with st have 1: "growth_interval (scaler ?s1) = growth_interval (scaler s)"
      "scale_factor (scaler ?s1) = scale_factor (scaler s)"
      "growth_tracker (scaler ?s1) = growth_tracker (scaler s) + 1" by simp_all
    from Cons.prems 1 False have "growth_tracker (scaler ?s1) < growth_interval (scaler ?s1)"
      "length bs \<le> growth_interval (scaler ?s1)" by simp_all
    from Cons.IH [OF run this] 1 show ?thesis by (simp split: if_splits)
  qed
qed

lemma train_loop_session:
  assumes "train_loop env epoch w bs (s, acc) = Inr sr"
  shows "fst sr = fold (next_session env epoch w) bs s"
  using assms train_loop_ok [OF train_loop_shape [OF assms], of acc] by auto

text \<open>
  C8. A step in which some computed gradient is non-finite leaves the optimiser state as it
  was (the update is skipped) and halves the scale factor. Over a run of \<open>N\<close> consecutive
  steps with finite gradients only, \<open>N\<close> the growth interval, the scale factor is doubled
  (the growth tracker lies below \<open>N\<close>, as it does after every update of the scaler).
\<close>

theorem overflow_skips_update_and_scale_adjusts:
  "(train_step env epoch w b (s, acc) = Inr (s1, acc1)
      \<and> \<not> list_all is_finite (backward env (params s) (fst b) (snd b) (scale_factor (scaler s)))
    \<longrightarrow> params s1 = params s \<and> scale_factor (scaler s1) = scale_factor (scaler s) / 2)
   \<and> (train_loop env epoch w bs (s, acc) = Inr (s', acc')
      \<and> finite_run env epoch w bs s
      \<and> length bs = growth_interval (scaler s)
      \<and> growth_tracker (scaler s) < growth_interval (scaler s)
    \<longrightarrow> scale_factor (scaler s') = 2 * scale_factor (scaler s))"
proof (intro conjI impI; elim conjE)
  assume st: "train_step env epoch w b (s, acc) = Inr (s1, acc1)"
    and inf: "\<not> list_all is_finite (backward env (params s) (fst b) (snd b) (scale_factor (scaler s)))"
  from train_step_session [OF st] have s1: "s1 = next_session env epoch w b s" by simp
  show "params s1 = params s"
    by (simp add: s1 next_session_fields optimizer_phase_overflow [OF inf])
  show "scale_factor (scaler s1) = scale_factor (scaler s) / 2"
    by (simp add: s1 next_session_fields optimizer_phase_overflow [OF inf])
next
  assume tl: "train_loop env epoch w bs (s, acc) = Inr (s', acc')"
    and fin: "finite_run env epoch w bs s"
    and len: "length bs = growth_interval (scaler s)"
    and tr: "growth_tracker (scaler s) < growth_interval (scaler s)"
  from train_loop_session [OF tl] have s': "s' = fold (next_session env epoch w) bs s" by simp
  from len have "length bs \<le> growth_interval (scaler s)" by simp
  from finite_run_scaler [OF fin tr this] len
  show "scale_factor (scaler s') = 2 * scale_factor (scaler s)" by (simp add: s')
qed


lemma example_hit_counts: "correct_counts (fst example_hit) (snd example_hit) = Inr (1, 2)"
  by (simp add: correct_counts_spec example_hit_def spec_top1_hits_def spec_top5_hits_def
      example_topk_row)

lemma example_overflow_gradients:
  "\<not> list_all is_finite
       (backward overflow_env (params example_session) (fst example_hit) (snd example_hit)
          (scale_factor (scaler example_session)))"
  by (simp add: overflow_env_def example_env_def is_finite_def)

lemma example_overflow_step:
  "train_step overflow_env 0 0 example_hit (example_session, example_running) =
     Inr (example_after_overflow,
          \<lparr> running_loss = 2, running_top1_correct = 1, running_top5_correct = 2,
            running_samples = 2 \<rparr>)"
proof -
  have f: "forward overflow_env (model_mode example_session) (params example_session)
             (fst example_hit) = fst example_hit"
    by (simp add: overflow_env_def example_env_def)
  have n: "next_session overflow_env 0 0 example_hit example_session = example_after_overflow"
    by (simp add: next_session_def optimizer_phase_def maybe_clip_def GradScaler_step_def
        GradScaler_unscale_def GradScaler_update_def WarmupCosineScheduler_step_def
        warmup_cosine_def is_finite_def unscale_grad_def overflow_env_def example_env_def
        example_session_def example_scaler_def example_after_overflow_def Let_def)
  show ?thesis
    by (simp add: train_step_def Let_def f n example_hit_counts apply_criterion_def)
      (simp add: example_hit_def overflow_env_def example_env_def example_running_def)
qed

lemma example_finite_run:
  "finite_run example_env epoch w bs s"
  by (induction bs arbitrary: s) (simp_all add: example_env_def is_finite_def)

lemma example_train_loop:
  "train_loop example_env 0 0 [example_hit, example_miss] (example_session, example_running) =
     Inr (example_after_two,
          \<lparr> running_loss = 5 / 2, running_top1_correct = 1, running_top5_correct = 2,
            running_samples = 3 \<rparr>)"
proof -
  have m: "example_session\<lparr> model_mode := Train \<rparr> = example_session"
    by (simp add: example_session_def)
  show ?thesis
    using train_loop_ok [of example_env 0 0 "[example_hit, example_miss]" example_session
        example_running, unfolded example_train_stream, OF example_stream_shape]
      example_fold_session [unfolded m]
    by (simp add: example_stream_totals example_running_def example_after_two_def)
qed

theorem overflow_skips_update_and_scale_adjusts_witness:
  "train_step overflow_env 0 0 example_hit (example_session, example_running) =
     Inr (example_after_overflow,
          \<lparr> running_loss = 2, running_top1_correct = 1, running_top5_correct = 2,
            running_samples = 2 \<rparr>)
   \<and> \<not> list_all is_finite
       (backward overflow_env (params example_session) (fst example_hit) (snd example_hit)
          (scale_factor (scaler example_session)))
   \<and> params example_after_overflow = params example_session
   \<and> scale_factor (scaler example_after_overflow) = scale_factor (scaler example_session) / 2
   \<and> train_loop example_env 0 0 [example_hit, example_miss] (example_session, example_running) =
     Inr (example_after_two,
          \<lparr> running_loss = 5 / 2, running_top1_correct = 1, running_top5_correct = 2,
            running_samples = 3 \<rparr>)
   \<and> finite_run example_env 0 0 [example_hit, example_miss] example_session
   \<and> length [example_hit, example_miss] = growth_interval (scaler example_session)
   \<and> growth_tracker (scaler example_session) < growth_interval (scaler example_session)
   \<and> scale_factor (scaler example_after_two) = 2 * scale_factor (scaler example_session)"
proof -
  have g: "length [example_hit, example_miss] = growth_interval (scaler example_session)"
    "growth_tracker (scaler example_session) < growth_interval (scaler example_session)"
    by (simp_all add: example_session_def example_scaler_def)
  note f = example_finite_run [of 0 0 "[example_hit, example_miss]" example_session]
  from overflow_skips_update_and_scale_adjusts
    [of overflow_env 0 0 example_hit example_session example_running example_after_overflow
      "\<lparr> running_loss = 2, running_top1_correct = 1, running_top5_correct = 2,
         running_samples = 2 \<rparr>"]
    example_overflow_step example_overflow_gradients
  have one: "params example_after_overflow = params example_session
      \<and> scale_factor (scaler example_after_overflow) = scale_factor (scaler example_session) / 2"
    by blast
  from overflow_skips_update_and_scale_adjusts
    [of example_env 0 0 _ example_session example_running _ _ "[example_hit, example_miss]"
      example_after_two
      "\<lparr> running_loss = 5 / 2, running_top1_correct = 1, running_top5_correct = 2,
         running_samples = 3 \<rparr>"]
    example_train_loop f g
  have two: "scale_factor (scaler example_after_two) = 2 * scale_factor (scaler example_session)"
    by blast
  from example_overflow_step example_overflow_gradients example_train_loop f g one two
  show ?thesis by blast
qed

text \<open>
  A step of \<open>overflow_env\<close>: the gradients are non-finite and the update is skipped, yet the
  step counter of the scheduler goes from \<open>0\<close> to \<open>1\<close> and the running totals take the
  batch in.
\<close>

theorem skipped_step_advances_scheduler_and_totals:
  "\<not> list_all is_finite
       (backward overflow_env (params example_session) (fst example_hit) (snd example_hit)
          (scale_factor (scaler example_session)))
   \<and> train_step overflow_env 0 0 example_hit (example_session, example_running) =
       Inr (example_after_overflow,
            \<lparr> running_loss = 2, running_top1_correct = 1, running_top5_correct = 2,
              running_samples = 2 \<rparr>)
   \<and> params example_after_overflow = params example_session
   \<and> step_counter (scheduler example_session) = 0
   \<and> step_counter (scheduler example_after_overflow) = 1
   \<and> running_loss example_running = 0
   \<and> running_samples example_running = 0
   \<and> running_top1_correct example_running = 0
   \<and> running_top5_correct example_running = 0"
  using example_overflow_step example_overflow_gradients
  by (simp add: example_session_def example_running_def example_after_overflow_def)

text \<open>
  C5, amended. Every step that completes, whether its optimiser update was skipped or not,
  advances the scheduler by exactly one (the rate written is the one for the old counter)
  and adds the batch to the running totals: loss times batch size, batch size, top-1 and
  top-5 hits.
\<close>

theorem every_step_advances_scheduler_and_totals:
  assumes "train_step env epoch w b (s, acc) = Inr (s', acc')"
  shows "step_counter (scheduler s') = step_counter (scheduler s) + 1
    \<and> lr s' = warmup_cosine (base_lr (scheduler s)) (total_steps (scheduler s))
                 (warmup_steps (scheduler s)) (step_counter (scheduler s))
    \<and> running_loss acc' = running_loss acc
        + criterion env (forward env (model_mode s) (params s) (fst b)) (snd b)
            * real (length (snd b))
    \<and> running_samples acc' = running_samples acc + length (snd b)
    \<and> running_top1_correct acc' = running_top1_correct acc
        + real (spec_top1_hits (forward env (model_mode s) (params s) (fst b)) (snd b))
    \<and> running_top5_correct acc' = running_top5_correct acc
        + real (spec_top5_hits (forward env (model_mode s) (params s) (fst b)) (snd b))"
proof -
  from train_step_ok [OF train_step_shape [OF assms], of epoch w acc] assms
  have s': "s' = next_session env epoch w b s"
    and acc': "acc' =
         \<lparr> running_loss = running_loss acc + loss_sum [consumed env (model_mode s) (params s) b],
           running_top1_correct =
             running_top1_correct acc + real (top1_total [consumed env (model_mode s) (params s) b]),
           running_top5_correct =
             running_top5_correct acc + real (top5_total [consumed env (model_mode s) (params s) b]),
           running_samples =
             running_samples acc + sample_count [consumed env (model_mode s) (params s) b] \<rparr>"
    by simp_all
  show ?thesis
    by (simp add: s' acc' next_session_fields loss_sum_def sample_count_def top1_total_def
        top5_total_def consumed_def)
qed

theorem every_step_advances_scheduler_and_totals_witness:
  "train_step overflow_env 0 0 example_hit (example_session, example_running) =
     Inr (example_after_overflow,
          \<lparr> running_loss = 2, running_top1_correct = 1, running_top5_correct = 2,
            running_samples = 2 \<rparr>)
   \<and> step_counter (scheduler example_after_overflow) = step_counter (scheduler example_session) + 1
   \<and> (2::nat) = running_samples example_running + length (snd example_hit)
   \<and> (2::real) = running_loss example_running
        + criterion overflow_env
            (forward overflow_env (model_mode example_session) (params example_session)
               (fst example_hit)) (snd example_hit) * real (length (snd example_hit))"
  using example_overflow_step every_step_advances_scheduler_and_totals [OF example_overflow_step]
  by simp

subsection \<open>The clipping gate\<close>

lemma WARMUP_STEPS_mono: "a \<le> b \<Longrightarrow> WARMUP_STEPS a \<le> WARMUP_STEPS b"
  by (simp add: WARMUP_STEPS_def NUM_STEPS_def NUM_EPOCHS_def zdiv_mono1)

lemma clip_gate_never_opens:
  assumes "98 \<le> n" and "epoch < NUM_EPOCHS"
  shows "maybe_clip env epoch (WARMUP_STEPS n) sc gs = (False, sc, gs)"
proof -
  have "WARMUP_STEPS 98 \<le> WARMUP_STEPS n" using assms(1) by (rule WARMUP_STEPS_mono)
  moreover have "WARMUP_STEPS 98 = 35" by (simp add: WARMUP_STEPS_def NUM_STEPS_def NUM_EPOCHS_def)
  ultimately have "\<not> epoch > WARMUP_STEPS n" using assms(2) by (simp add: NUM_EPOCHS_def)
  then show ?thesis by (simp add: maybe_clip_def)
qed

lemma clip_gate_closed_during_warmup:
  assumes "0 \<le> epoch" and "1 \<le> n" and "0 \<le> i" and "epoch * n + i < WARMUP_STEPS n"
  shows "maybe_clip env epoch (WARMUP_STEPS n) sc gs = (False, sc, gs)"
proof -
  from assms(1,2) have "epoch * 1 \<le> epoch * n" by (intro mult_left_mono)
  with assms(3,4) have "\<not> epoch > WARMUP_STEPS n" by simp
  then show ?thesis by (simp add: maybe_clip_def)
qed

lemma step_counter_fold:
  "step_counter (scheduler (fold (next_session env epoch w) bs s))
   = step_counter (scheduler s) + int (length bs)"
  by (induction bs arbitrary: s) (simp_all add: next_session_fields)

text \<open>
  C1, at the failing input. With ImageNet-1k at batch size 256 the loader has 5005 batches,
  so \<open>WARMUP_STEPS = 1801\<close>. On the last step of the last epoch (epoch index 35, step
  counter \<open>35 * 5005 + 5004\<close>) warm-up has long ended, yet the gate \<^verbatim>\<open>epoch > WARMUP_STEPS\<close>
  is closed and the gradients are passed on unclipped.
\<close>

theorem clip_gate_compares_epoch_with_step_count:
  "WARMUP_STEPS 5005 = 1801
   \<and> WARMUP_STEPS 5005 \<le> 35 * 5005 + 5004
   \<and> maybe_clip env 35 (WARMUP_STEPS 5005) sc gs = (False, sc, gs)"
  by (simp add: WARMUP_STEPS_def NUM_STEPS_def NUM_EPOCHS_def maybe_clip_def)


subsection \<open>The learning-rate schedule\<close>

lemma clamp01_range: "0 \<le> clamp01 x" "clamp01 x \<le> 1"
  by (simp_all add: clamp01_def)

lemma clamp01_mono: "x \<le> y \<Longrightarrow> clamp01 x \<le> clamp01 y"
  by (simp add: clamp01_def max_def min_def)

lemma clamp01_id: "0 \<le> x \<Longrightarrow> x \<le> 1 \<Longrightarrow> clamp01 x = x"
  by (simp add: clamp01_def)

lemma warmup_phase:
  "s < W \<Longrightarrow> warmup_cosine rate0 T W s = rate0 * (real_of_int s + 1) / real_of_int W"
  by (simp add: warmup_cosine_def)

lemma cosine_phase:
  "W \<le> s \<Longrightarrow> warmup_cosine rate0 T W s =
     rate0 * 0.5 * (1 + cos (pi * clamp01 (real_of_int (s - W) / real_of_int (max 1 (T - W)))))"
  by (simp add: warmup_cosine_def Let_def)

lemma warmup_nondecreasing:
  assumes "0 \<le> rate0" and "0 \<le> s" and "s + 1 < W"
  shows "warmup_cosine rate0 T W s \<le> warmup_cosine rate0 T W (s + 1)"
proof -
  from assms(2,3) have w: "0 < real_of_int W" and s: "s < W" by simp_all
  have "rate0 * (real_of_int s + 1) \<le> rate0 * (real_of_int (s + 1) + 1)"
    using assms(1) by (intro mult_left_mono) simp_all
  then have "rate0 * (real_of_int s + 1) / real_of_int W
             \<le> rate0 * (real_of_int (s + 1) + 1) / real_of_int W"
    using w by (simp add: divide_right_mono)
  then show ?thesis
    by (simp only: warmup_phase [OF s] warmup_phase [OF assms(3)])
qed

lemma warmup_ends_at_base:
  assumes "0 < W"
  shows "warmup_cosine rate0 T W (W - 1) = rate0"
  using assms by (simp add: warmup_phase)

lemma cosine_nonincreasing:
  assumes "0 \<le> rate0" and "W \<le> s"
  shows "warmup_cosine rate0 T W (s + 1) \<le> warmup_cosine rate0 T W s"
proof -
  let ?d = "real_of_int (max 1 (T - W))"
  let ?p = "\<lambda>k. clamp01 (real_of_int (k - W) / ?d)"
  have d: "0 < ?d" by simp
  have "real_of_int (s - W) / ?d \<le> real_of_int (s + 1 - W) / ?d"
    using d by (intro divide_right_mono) simp_all
  then have "?p s \<le> ?p (s + 1)" by (rule clamp01_mono)
  then have "pi * ?p s \<le> pi * ?p (s + 1)" by (simp add: mult_left_mono)
  moreover have "0 \<le> pi * ?p s" by (simp add: clamp01_range)
  moreover have "pi * ?p (s + 1) \<le> pi" using clamp01_range(2) [of "real_of_int (s + 1 - W) / ?d"]
    by (simp add: mult_left_le)
  ultimately have "cos (pi * ?p (s + 1)) \<le> cos (pi * ?p s)"
    by (intro cos_monotone_0_pi_le) simp_all
  then have "rate0 * 0.5 * (1 + cos (pi * ?p (s + 1))) \<le> rate0 * 0.5 * (1 + cos (pi * ?p s))"
    using assms(1) by (intro mult_left_mono) simp_all
  moreover from assms(2) have "W \<le> s + 1" by simp
  ultimately show ?thesis
    by (simp only: cosine_phase [OF assms(2)] cosine_phase [OF \<open>W \<le> s + 1\<close>])
qed

lemma half_cosine_at_end:
  fixes n :: real
  assumes "1 \<le> n"
  shows "1 + cos (pi * (1 - 1 / n)) = 2 * (sin (pi / (2 * n)))\<^sup>2"
proof -
  have "pi * (1 - 1 / n) = pi - pi / n" by (simp add: algebra_simps)
  then have "cos (pi * (1 - 1 / n)) = - cos (pi / n)" by (simp only: cos_pi_minus)
  also have "pi / n = 2 * (pi / (2 * n))" by simp
  also have "cos (2 * (pi / (2 * n))) = 1 - 2 * (sin (pi / (2 * n)))\<^sup>2"
    by (rule cos_double_sin)
  finally show ?thesis by simp
qed

lemma cosine_last_step:
  assumes "W < T"
  shows "warmup_cosine rate0 T W (T - 1) = rate0 * (sin (pi / (2 * real_of_int (T - W))))\<^sup>2"
proof -
  define n where "n = real_of_int (T - W)"
  from assms have n: "1 \<le> n" by (simp add: n_def)
  have m: "real_of_int (max 1 (T - W)) = n" using assms by (simp add: n_def)
  have q: "real_of_int (T - 1 - W) = n - 1" by (simp add: n_def)
  have "(n - 1) / n = 1 - 1 / n" using n by (simp add: field_simps)
  moreover have "0 \<le> 1 - 1 / n" "1 - 1 / n \<le> 1" using n by simp_all
  ultimately have p: "clamp01 ((n - 1) / n) = 1 - 1 / n" by (simp add: clamp01_id)
  from assms have "W \<le> T - 1" by simp
  then have "warmup_cosine rate0 T W (T - 1) = rate0 * 0.5 * (1 + cos (pi * clamp01 ((n - 1) / n)))"
    by (simp only: cosine_phase m q)
  also have "\<dots> = rate0 * 0.5 * (2 * (sin (pi / (2 * n)))\<^sup>2)"
    by (simp only: p half_cosine_at_end [OF n])
  finally show ?thesis by (simp add: n_def)
qed

lemma cosine_ends_near_zero:
  assumes "0 \<le> rate0" and "W < T"
  shows "0 \<le> warmup_cosine rate0 T W (T - 1)"
    and "warmup_cosine rate0 T W (T - 1) \<le> rate0 * (pi / (2 * real_of_int (T - W)))\<^sup>2"
proof -
  define x where "x = pi / (2 * real_of_int (T - W))"
  have l: "warmup_cosine rate0 T W (T - 1) = rate0 * (sin x)\<^sup>2"
    unfolding x_def by (rule cosine_last_step [OF assms(2)])
  show "0 \<le> warmup_cosine rate0 T W (T - 1)"
    using assms(1) by (simp add: l)
  have "\<bar>sin x\<bar> \<le> \<bar>x\<bar>" by (rule abs_sin_x_le_abs_x)
  then have "\<bar>sin x\<bar>\<^sup>2 \<le> \<bar>x\<bar>\<^sup>2" by (intro power_mono) simp_all
  then have "(sin x)\<^sup>2 \<le> x\<^sup>2" by (simp only: power2_abs)
  then have "rate0 * (sin x)\<^sup>2 \<le> rate0 * x\<^sup>2" using assms(1) by (rule mult_left_mono)
  then show "warmup_cosine rate0 T W (T - 1) \<le> rate0 * (pi / (2 * real_of_int (T - W)))\<^sup>2"
    by (simp only: l x_def)
qed

text \<open>
  C4. For a base rate \<open>rate0 \<ge> 0\<close> (the optimiser rejects a negative rate): for
  \<open>0 \<le> s < W\<close> the rate is \<open>rate0 * (s + 1) / W\<close>; for \<open>W \<le> s < T\<close> it is
  \<open>rate0 * 0.5 * (1 + cos (pi * progress))\<close> with the clamped progress of the schedule; the
  warm-up is non-decreasing and ends at \<open>rate0\<close>; the cosine phase is non-increasing; at
  the last step \<open>T - 1\<close> the rate lies between \<open>0\<close> and \<open>rate0 * (pi / (2 * (T - W)))\<^sup>2\<close>. The
  rate a training step writes into the optimiser is the one for the counter before the step.
\<close>

theorem warmup_cosine_schedule:
  assumes "0 \<le> rate0"
  shows "(\<forall>s. 0 \<le> s \<and> s < W \<longrightarrow>
            warmup_cosine rate0 T W s = rate0 * (real_of_int s + 1) / real_of_int W)
    \<and> (\<forall>s. W \<le> s \<and> s < T \<longrightarrow>
            warmup_cosine rate0 T W s =
              rate0 * 0.5 *
                (1 + cos (pi * clamp01 (real_of_int (s - W) / real_of_int (max 1 (T - W))))))
    \<and> (\<forall>s. 0 \<le> s \<and> s + 1 < W \<longrightarrow>
            warmup_cosine rate0 T W s \<le> warmup_cosine rate0 T W (s + 1))
    \<and> (0 < W \<longrightarrow> warmup_cosine rate0 T W (W - 1) = rate0)
    \<and> (\<forall>s. W \<le> s \<longrightarrow> warmup_cosine rate0 T W (s + 1) \<le> warmup_cosine rate0 T W s)
    \<and> (W < T \<longrightarrow>
          0 \<le> warmup_cosine rate0 T W (T - 1)
          \<and> warmup_cosine rate0 T W (T - 1) \<le> rate0 * (pi / (2 * real_of_int (T - W)))\<^sup>2)
    \<and> lr (next_session env epoch w b s0) =
          warmup_cosine (base_lr (scheduler s0)) (total_steps (scheduler s0))
            (warmup_steps (scheduler s0)) (step_counter (scheduler s0))"
proof (intro conjI allI impI)
  fix s :: int
  assume "0 \<le> s \<and> s < W"
  then show "warmup_cosine rate0 T W s = rate0 * (real_of_int s + 1) / real_of_int W"
    by (simp only: warmup_phase)
next
  fix s :: int
  assume "W \<le> s \<and> s < T"
  then show "warmup_cosine rate0 T W s =
      rate0 * 0.5 * (1 + cos (pi * clamp01 (real_of_int (s - W) / real_of_int (max 1 (T - W)))))"
    by (simp only: cosine_phase)
next
  fix s :: int
  assume "0 \<le> s \<and> s + 1 < W"
  then show "warmup_cosine rate0 T W s \<le> warmup_cosine rate0 T W (s + 1)"
    using assms by (simp only: warmup_nondecreasing)
next
  assume "0 < W"
  then show "warmup_cosine rate0 T W (W - 1) = rate0" by (rule warmup_ends_at_base)
next
  fix s :: int
  assume "W \<le> s"
  with assms show "warmup_cosine rate0 T W (s + 1) \<le> warmup_cosine rate0 T W s"
    by (rule cosine_nonincreasing)
next
  assume "W < T"
  with assms show "0 \<le> warmup_cosine rate0 T W (T - 1)" by (rule cosine_ends_near_zero(1))
next
  assume "W < T"
  with assms
  show "warmup_cosine rate0 T W (T - 1) \<le> rate0 * (pi / (2 * real_of_int (T - W)))\<^sup>2"
    by (rule cosine_ends_near_zero(2))
next
  show "lr (next_session env epoch w b s0) =
      warmup_cosine (base_lr (scheduler s0)) (total_steps (scheduler s0))
        (warmup_steps (scheduler s0)) (step_counter (scheduler s0))"
    by (rule next_session_fields(8))
qed

theorem warmup_cosine_schedule_witness:
  "(0::real) \<le> 2 / 25
   \<and> warmup_cosine (2 / 25) 20 5 0 = 2 / 125
   \<and> warmup_cosine (2 / 25) 20 5 10 = 2 / 25 * 0.5 * (1 + cos (pi * clamp01 (5 / 15)))
   \<and> warmup_cosine (2 / 25) 20 5 3 \<le> warmup_cosine (2 / 25) 20 5 4
   \<and> warmup_cosine (2 / 25) 20 5 4 = 2 / 25
   \<and> warmup_cosine (2 / 25) 20 5 11 \<le> warmup_cosine (2 / 25) 20 5 10
   \<and> 0 \<le> warmup_cosine (2 / 25) 20 5 19
   \<and> warmup_cosine (2 / 25) 20 5 19 \<le> 2 / 25 * (pi / 30)\<^sup>2
   \<and> lr (next_session example_env 0 0 example_hit example_session) = 2 / 125"
proof -
  have h: "(0::real) \<le> 2 / 25" by simp
  note t = warmup_cosine_schedule [OF h, of 5 20 example_env 0 0 example_hit example_session]
  from t have 1: "warmup_cosine (2 / 25) 20 5 0 = 2 / 25 * (real_of_int 0 + 1) / real_of_int 5"
    by (elim conjE allE [of _ 0]) simp
  from t have 2: "warmup_cosine (2 / 25) 20 5 10 =
      2 / 25 * 0.5 * (1 + cos (pi * clamp01 (real_of_int (10 - 5) / real_of_int (max 1 (20 - 5)))))"
    by (elim conjE allE [of _ 10]) simp
  from t have 3: "warmup_cosine (2 / 25) 20 5 3 \<le> warmup_cosine (2 / 25) 20 5 (3 + 1)"
    by (elim conjE allE [of _ 3]) simp
  from t have 4: "warmup_cosine (2 / 25) 20 5 (5 - 1) = 2 / 25"
    by (elim conjE) simp
  from t have 5: "warmup_cosine (2 / 25) 20 5 (10 + 1) \<le> warmup_cosine (2 / 25) 20 5 10"
    by (elim conjE allE [of _ 10]) simp
  from t have 6: "0 \<le> warmup_cosine (2 / 25) 20 5 (20 - 1)
      \<and> warmup_cosine (2 / 25) 20 5 (20 - 1) \<le> 2 / 25 * (pi / (2 * real_of_int (20 - 5)))\<^sup>2"
    by (elim conjE) simp
  from t have 7: "lr (next_session example_env 0 0 example_hit example_session) =
      warmup_cosine (base_lr (scheduler example_session)) (total_steps (scheduler example_session))
        (warmup_steps (scheduler example_session)) (step_counter (scheduler example_session))"
    by (elim conjE)
  have 8: "warmup_cosine (base_lr (scheduler example_session)) (total_steps (scheduler example_session))
        (warmup_steps (scheduler example_session)) (step_counter (scheduler example_session))
      = warmup_cosine (2 / 25) 20 5 0"
    by (simp add: example_session_def)
  from 1 2 3 4 5 6 7 8 show ?thesis by simp
qed

subsection \<open>Passes without samples\<close>

text \<open>
  C6. A pass over an empty batch stream fails with the division-by-zero error and returns
  no record; so does every pass that the library calls accept and that ends with a sample
  count of zero. This holds for the evaluation pass \<^verbatim>\<open>validate\<close> and for the training pass
  of an epoch.
\<close>

theorem no_samples_fails:
  "validate env p [] = Inl ZeroDivisionError
   \<and> train_epoch env epoch w [] s = Inl ZeroDivisionError
   \<and> (list_all well_shaped (validate_stream env p dl)
        \<and> sample_count (validate_stream env p dl) = 0
      \<longrightarrow> validate env p dl = Inl ZeroDivisionError)
   \<and> (list_all well_shaped (train_stream env epoch w bs (s\<lparr> model_mode := Train \<rparr>))
        \<and> sample_count (train_stream env epoch w bs (s\<lparr> model_mode := Train \<rparr>)) = 0
      \<longrightarrow> train_epoch env epoch w bs s = Inl ZeroDivisionError)"
proof (intro conjI impI; (elim conjE)?)
  show "validate env p [] = Inl ZeroDivisionError" by (simp add: validate_def)
  show "train_epoch env epoch w [] s = Inl ZeroDivisionError" by (simp add: train_epoch_def)
next
  assume "list_all well_shaped (validate_stream env p dl)"
    and "sample_count (validate_stream env p dl) = 0"
  then show "validate env p dl = Inl ZeroDivisionError"
    by (simp add: validate_def validate_loop_ok)
next
  assume "list_all well_shaped (train_stream env epoch w bs (s\<lparr> model_mode := Train \<rparr>))"
    and "sample_count (train_stream env epoch w bs (s\<lparr> model_mode := Train \<rparr>)) = 0"
  then show "train_epoch env epoch w bs s = Inl ZeroDivisionError"
    by (simp add: train_epoch_def train_loop_ok)
qed

theorem no_samples_fails_witness:
  "list_all well_shaped (validate_stream example_env 0 [([], [])])
   \<and> sample_count (validate_stream example_env 0 [([], [])]) = 0
   \<and> validate example_env 0 [([], [])] = Inl ZeroDivisionError
   \<and> list_all well_shaped
        (train_stream example_env 0 0 [([], [])] (example_session\<lparr> model_mode := Train \<rparr>))
   \<and> sample_count
        (train_stream example_env 0 0 [([], [])] (example_session\<lparr> model_mode := Train \<rparr>)) = 0
   \<and> train_epoch example_env 0 0 [([], [])] example_session = Inl ZeroDivisionError"
proof -
  have v: "list_all well_shaped (validate_stream example_env 0 [([], [])])"
    "sample_count (validate_stream example_env 0 [([], [])]) = 0"
    by (simp_all add: validate_stream_def consumed_def well_shaped_def sample_count_def
        example_env_def)
  have t: "list_all well_shaped
        (train_stream example_env 0 0 [([], [])] (example_session\<lparr> model_mode := Train \<rparr>))"
    "sample_count
        (train_stream example_env 0 0 [([], [])] (example_session\<lparr> model_mode := Train \<rparr>)) = 0"
    by (simp_all add: consumed_def well_shaped_def sample_count_def example_env_def)
  from no_samples_fails [of example_env 0 0 0 example_session "[([], [])]" "[([], [])]"] v t
  show ?thesis by blast
qed

end
